theory Spec2Isabelle
  imports Complex_Main "HOL-Library.Sublist"
begin

section \<open>Image math (src/math/image-math.js, src/math/unit-math.js)\<close>

text \<open>
  JavaScript numbers are IEEE doubles. \<open>scaleToRatio\<close> is modelled on the real numbers,
  with the exact operations \<open>*\<close> and \<open>/\<close>. For \<open>constrain\<close> and \<open>fastRound\<close>, whose results
  are rounded to integers, the rounding of every arithmetic result to a double is written
  out, as are the 32-bit conversions of \<open><< 0\<close> and \<open>| 0\<close>.
\<close>

text \<open>
  Rounding to the nearest double (binary64: 53 significant bits, the smallest exponent
  \<open>-1022\<close>, ties to the even significand). A result beyond the largest double, which the
  program holds as an infinity, is outside the model.
\<close>

definition roundTiesToEven :: "real \<Rightarrow> int" where
  "roundTiesToEven v =
     (let f = \<lfloor>v\<rfloor>; r = v - of_int f
      in if r < 1 / 2 then f else if 1 / 2 < r then f + 1 else if even f then f else f + 1)"

definition toDouble :: "real \<Rightarrow> real" where
  "toDouble v =
     (if v = 0 then 0
      else let e = max \<lfloor>log 2 \<bar>v\<bar>\<rfloor> (- 1022);
               ulp = 2 powr of_int (e - 52)
           in of_int (roundTiesToEven (v / ulp)) * ulp)"

text \<open>
  The conversion ToInt32 that the bit operators \<open><<\<close> and \<open>|\<close> apply to their operand:
  truncate towards zero, reduce modulo \<open>2^32\<close>, read the result as a signed 32-bit value.
\<close>

definition toInt32 :: "real \<Rightarrow> int" where
  "toInt32 v =
     (let n = (if v < 0 then \<lceil>v\<rceil> else \<lfloor>v\<rfloor>) mod 2 ^ 32
      in if 2 ^ 31 \<le> n then n - 2 ^ 32 else n)"

text \<open>\<^verbatim>\<open>fastRound = num => num > 0 ? ( num + .5 ) << 0 : num | 0\<close>\<close>

definition fastRound :: "real \<Rightarrow> real" where
  "fastRound num =
     (if num > 0 then of_int (toInt32 (toDouble (num + 1 / 2))) else of_int (toInt32 num))"

text \<open>
  \<^verbatim>\<open>scaleToRatio( imageWidth, imageHeight, destWidth, destHeight )\<close>, returning the pair
  \<open>(width, height)\<close>. The three branches on the orientation of the image are kept as the
  source has them.
\<close>

definition scaleToRatio :: "real \<Rightarrow> real \<Rightarrow> real \<Rightarrow> real \<Rightarrow> real \<times> real" where
  "scaleToRatio imageWidth imageHeight destWidth destHeight =
     (let height =
            (if imageWidth > imageHeight then destWidth * (imageHeight / imageWidth)
             else if imageHeight > imageWidth then destWidth * (imageHeight / imageWidth)
             else if imageHeight = imageWidth then destWidth
             else destHeight)
      in if height < destHeight
         then (destWidth * (destHeight / height), destHeight)
         else (destWidth, height))"

text \<open>
  \<^verbatim>\<open>constrain( width, height, maxMegaPixel )\<close>, returning the pair \<open>(width, height)\<close>.
  \<open>Math.sqrt\<close> is correctly rounded, as the other operations are.
\<close>

definition constrain :: "real \<Rightarrow> real \<Rightarrow> real \<Rightarrow> real \<times> real" where
  "constrain width height maxMegaPixel =
     (let megaPixel = toDouble (width * height)
      in if megaPixel > maxMegaPixel
         then (let ratio = toDouble (toDouble (sqrt maxMegaPixel) / toDouble (sqrt megaPixel))
               in (fastRound (toDouble (width * ratio)), fastRound (toDouble (height * ratio))))
         else (width, height))"

section \<open>The layer sprite (src/rendering/canvas-elements/layer-sprite.js)\<close>

text \<open>
  The sprite is a record of the fields that \<open>LayerSprite\<close> reads and writes, together
  with the part of its environment that the modelled methods touch: the store getters,
  the timers that \<open>setTimeout\<close> has armed and that have neither fired nor been cleared,
  the promises of \<open>canvasToBlob\<close> that have not yet resolved, and a trace of the calls
  made to collaborators (drawing contexts, caches, history), in the order in which the
  source makes them. Every method is a function from the state before the call to the
  state after it. The sprite is taken to be attached to its canvas and store, and its
  layer to own a source canvas, as it does once the constructor has run.
\<close>

subsection \<open>Data\<close>

type_synonym point = "real \<times> real"

text \<open>A snapshot resource, as \<open>blobToResource\<close> hands it out.\<close>

type_synonym resource = nat

datatype error = TypeError

text \<open>
  The tool kinds that the source and its tests name (\<open>definitions/tool-types\<close> is not
  part of the sources at hand); every other kind is an \<open>OTHER\<close> one and takes the default
  branch of the \<open>switch\<close>.
\<close>

datatype tool_type = MOVE | ZOOM | DRAG | FILL | ERASER | BRUSH | CLONE | EYEDROPPER
  | OTHER string

text \<open>
  The options object of a tool, with the properties that the sprite reads (\<open>size\<close>,
  \<open>opacity\<close>, \<open>smartFill\<close>, \<open>coords\<close>, \<open>sourceLayerId\<close>), and the brush state. In the
  source the options of the brush are the very object that \<open>_toolOptions\<close> holds; the
  sprite reads only \<open>opacity\<close> through the brush and never writes it, so the brush keeps
  a copy.
\<close>

record tool_options =
  opt_size :: real
  opacity :: real
  smartFill :: bool
  coords :: "point option"
  sourceLayerId :: string

record brush =
  color :: string
  radius :: real
  pointers :: "point list"
  down :: bool
  last_idx :: nat
  options :: tool_options

text \<open>
  A canvas element, with an identity for the comparison \<open>===\<close>, and the layer with the
  properties that the sprite reads and writes. \<open>canDrawOnSelection\<close> is what the function
  of that name (definitions/tool-types, not among the sources at hand) answers for the
  layer.
\<close>

record canvas_el =
  cvs_id :: nat
  cvs_width :: real
  cvs_height :: real

record effects =
  mirrorX :: bool
  mirrorY :: bool
  rotation :: real
  scale :: real

record layer =
  layer_id :: string
  layer_left :: real
  layer_top :: real
  layer_width :: real
  layer_height :: real
  source :: canvas_el
  mask :: "canvas_el option"
  maskX :: real
  maskY :: real
  layer_effects :: effects
  canDrawOnSelection :: bool

record store_getters =
  activeColor :: string
  activeLayerMask :: "canvas_el option"
  lowMemory :: bool
  snapAlign :: bool

record document =
  doc_selection :: "point list option"
  doc_invertSelection :: bool

record opt_action =
  oa_type :: string
  oa_color :: string
  oa_size :: "real option"
  oa_selection :: "point list option"

text \<open>
  The drawing contexts a paint can reach: the context of the layer's source, of the
  layer's mask, of the shared low-resolution canvas, and of the scratch canvas that a
  full-resolution brush pass creates.
\<close>

datatype ctx_id = LayerSource | LayerMask | TempCtx | ScratchCtx

datatype js_value = JStr string | JNum real

datatype history_entry =
    SpritePaint string "resource option" resource
  | MaskPos string point point
  | SpritePos string point point point point

datatype event =
    GetContext ctx_id
  | CtxSave ctx_id
  | CtxRestore ctx_id
  | ClipContextToSelection ctx_id "point list" real real bool bool
  | CtxSet ctx_id string js_value
  | CtxStroke ctx_id
  | CtxFill ctx_id
  | CtxFillRect ctx_id real real real real
  | CtxClosePath ctx_id
  | CtxScale ctx_id real real
  | CtxDrawImage ctx_id ctx_id
  | FloodFill ctx_id real real string
  | RenderClonedStroke ctx_id brush string "point list"
  | RenderBrushStroke ctx_id brush bool
  | SetBitmap ctx_id
  | GetTempCanvas
  | DisposeTempCanvas
  | CreateOverrideConfig "point list"
  | CreateCanvas real real
  | ClearCacheProperty string
  | SetLock bool
  | RequestAnimationFrame
  | CanvasToBlob
  | SetTimeout nat nat
  | ClearTimeout nat
  | EnqueueState history_entry
  | SnapSpriteToGuide
  | SuperHandleMove real real
  | CommitSetActiveColor string
  | Invalidate

text \<open>
  A promise of \<open>canvasToBlob\<close> that has not resolved yet, with what its continuation
  holds: the one of \<open>preparePendingPaintState\<close> stores the encoded source, the one of
  \<open>storePaintState\<close> holds the layer id and the original state it captured.
\<close>

datatype job = PrepareJob | CommitJob string "resource option"

datatype temp_canvas = TempCanvas

text \<open>
  The fields of the sprite carry the names of the source without the leading underscore.
  From the base class come \<open>interactive\<close>, \<open>draggable\<close>, \<open>isDragging\<close>, the position
  and the size of the bounds and the two drag anchors. From the environment: \<open>registered\<close> (the sprite
  registry finds this sprite for its layer), \<open>draggingSprite\<close> (the canvas holds this
  sprite as the one being dragged), \<open>documentScale\<close>, \<open>canvasColorAt\<close> (the colour of the
  canvas pixel under a point, as the eyedropper reads it), \<open>guideSnap\<close> (the position
  that the guides of the canvas give the sprite, when a guide is in reach), the armed
  \<open>timers\<close> with their delays, the unresolved \<open>jobs\<close>, and the counters that number
  timers and resources.
  A field that the source leaves \<open>null\<close> or \<open>undefined\<close> is \<open>None\<close>; reading a property of
  \<open>_toolOptions\<close> while it is \<open>null\<close> is the \<open>TypeError\<close> of the model.
\<close>

record sprite =
  layer :: layer
  store :: store_getters
  boundsLeft :: real
  boundsTop :: real
  boundsWidth :: real
  boundsHeight :: real
  pointerX :: real
  pointerY :: real
  brush :: brush
  actionTarget :: string
  interactive :: bool
  draggable :: bool
  isDragging :: bool
  isPaintMode :: bool
  isDragMode :: bool
  isColorPicker :: bool
  selection :: "point list option"
  invertSelection :: bool
  toolType :: "tool_type option"
  toolOptions :: "tool_options option"
  cloneStartCoords :: "point option"
  dragStartOffset :: point
  dragStartEventCoordinates :: point
  tempCanvas :: "temp_canvas option"
  pendingPaintState :: "nat option"
  orgSourceToStore :: "resource option"
  rafFx :: bool
  registered :: bool
  draggingSprite :: bool
  documentScale :: real
  canvasColorAt :: "point \<Rightarrow> string"
  guideSnap :: "point option"
  timers :: "(nat \<times> nat) list"
  timerCount :: nat
  jobs :: "job list"
  resourceCount :: nat
  trace :: "event list"

subsection \<open>Environment: trace, timers, promises\<close>

definition emit :: "event \<Rightarrow> sprite \<Rightarrow> sprite" where
  "emit e s = s\<lparr>trace := trace s @ [e]\<rparr>"

text \<open>
  \<open>setTimeout\<close> hands out a fresh positive handle and keeps the timer until it fires or
  is cleared; \<open>clearTimeout\<close> drops the timer with the given handle, if there is one.
\<close>

definition setTimeout :: "nat \<Rightarrow> sprite \<Rightarrow> nat \<times> sprite" where
  "setTimeout timeout s =
     (let t = Suc (timerCount s)
      in (t, emit (SetTimeout t timeout)
               (s\<lparr>timers := timers s @ [(t, timeout)], timerCount := t\<rparr>)))"

definition clearTimeout :: "nat \<Rightarrow> sprite \<Rightarrow> sprite" where
  "clearTimeout t s =
     emit (ClearTimeout t) (s\<lparr>timers := filter (\<lambda>(i, d). i \<noteq> t) (timers s)\<rparr>)"

text \<open>The test \<open>!this._pendingPaintState\<close>: no handle, or the handle 0.\<close>

definition absent :: "nat option \<Rightarrow> bool" where
  "absent p = (p = None \<or> p = Some 0)"

subsection \<open>Helpers that are not part of the sources at hand\<close>

text \<open>
  Modelled from the spec: \<open>translatePointerRotation\<close> (math/point-math) is missing; the
  spec has it "rotate a point about an arbitrary pivot by a signed angle (radians)".
\<close>

definition translatePointerRotation :: "real \<Rightarrow> real \<Rightarrow> real \<Rightarrow> real \<Rightarrow> real \<Rightarrow> point" where
  "translatePointerRotation px py rotationCenterX rotationCenterY angleInRadians =
     (let x2 = px - rotationCenterX; y2 = py - rotationCenterY
      in (x2 * cos angleInRadians - y2 * sin angleInRadians + rotationCenterX,
          x2 * sin angleInRadians + y2 * cos angleInRadians + rotationCenterY))"

text \<open>
  Modelled from the spec: \<open>BrushFactory.create\<close> (factories/brush-factory) is missing; the
  spec lists the attributes of a brush state, and a newly created one is not down and has
  processed no sample.
\<close>

definition BrushFactory_create :: "string \<Rightarrow> real \<Rightarrow> point list \<Rightarrow> tool_options \<Rightarrow> brush" where
  "BrushFactory_create c r ps opts =
     \<lparr>color = c, radius = r, pointers = ps, down = False, last_idx = 0, options = opts\<rparr>"

text \<open>
  Modelled from the spec: \<open>slicePointers\<close> (rendering/lowres) is missing; the spec has a
  brush pass "take only the pointer samples recorded since the last processed index".
\<close>

definition slicePointers :: "brush \<Rightarrow> point list" where
  "slicePointers b = drop (last_idx b) (pointers b)"

text \<open>
  Modelled from the spec: \<open>isSelectionClosed\<close> (math/selection-math) is missing; the spec
  has a closed selection have "at least 3 points forming a closed loop".
\<close>

definition isSelectionClosed :: "point list option \<Rightarrow> bool" where
  "isSelectionClosed sel =
     (case sel of None \<Rightarrow> False | Some ps \<Rightarrow> 3 \<le> length ps \<and> hd ps = last ps)"

subsection \<open>Methods\<close>

definition isMaskable :: "sprite \<Rightarrow> bool" where
  "isMaskable s = (mask (layer s) \<noteq> None \<and> activeLayerMask (store s) = mask (layer s))"

text \<open>The remainder operator \<open>%\<close> of JavaScript: the quotient is truncated towards zero.\<close>

definition jsRem :: "real \<Rightarrow> real \<Rightarrow> real" where
  "jsRem a b = a - b * of_int (if a / b < 0 then \<lceil>a / b\<rceil> else \<lfloor>a / b\<rfloor>)"

definition isRotated :: "sprite \<Rightarrow> bool" where
  "isRotated s = (jsRem (rotation (layer_effects (layer s))) 360 \<noteq> 0)"

definition cacheBrush :: "string \<Rightarrow> tool_options \<Rightarrow> sprite \<Rightarrow> sprite" where
  "cacheBrush c toolOpts s =
     s\<lparr>brush := BrushFactory_create c (opt_size toolOpts) (pointers (brush s)) toolOpts\<rparr>"

definition storeBrushPointer :: "real \<Rightarrow> real \<Rightarrow> sprite \<Rightarrow> sprite" where
  "storeBrushPointer px py s =
     s\<lparr>brush := (brush s)\<lparr>down := True, pointers := pointers (brush s) @ [(px, py)]\<rparr>\<rparr>"

definition cacheEffects :: "sprite \<Rightarrow> sprite" where
  "cacheEffects s =
     (if rafFx s then s
      else emit RequestAnimationFrame (emit (SetLock True) (s\<lparr>rafFx := True\<rparr>)))"

definition resetFilterAndRecache :: "sprite \<Rightarrow> sprite" where
  "resetFilterAndRecache s = cacheEffects (emit (ClearCacheProperty ''filterData'') s)"

definition setSelection :: "document \<Rightarrow> bool \<Rightarrow> sprite \<Rightarrow> sprite" where
  "setSelection doc onlyWhenClosed s =
     (let sel = doc_selection doc;
          s1 = (if \<not> onlyWhenClosed \<or> (isSelectionClosed sel \<and> canDrawOnSelection (layer s))
                then s\<lparr>selection := (case sel of None \<Rightarrow> None
                                       | Some ps \<Rightarrow> if ps = [] then None else Some ps)\<rparr>
                else s\<lparr>selection := None\<rparr>)
      in s1\<lparr>invertSelection := (selection s1 \<noteq> None \<and> doc_invertSelection doc)\<rparr>)"

definition forceMoveListener :: "sprite \<Rightarrow> sprite" where
  "forceMoveListener s =
     s\<lparr>isDragging := True,
       dragStartOffset := (boundsLeft s, boundsTop s),
       dragStartEventCoordinates := (pointerX s, pointerY s)\<rparr>"

definition rotatePointerLists :: "point list \<Rightarrow> layer \<Rightarrow> real \<Rightarrow> real \<Rightarrow> point list" where
  "rotatePointerLists ps l sourceWidth sourceHeight =
     map (\<lambda>pt.
        let p = translatePointerRotation
                  (fst pt - layer_left l) (snd pt - layer_top l)
                  (sourceWidth * (1 / 2)) (sourceHeight * (1 / 2))
                  (if mirrorY (layer_effects l) then - rotation (layer_effects l)
                   else rotation (layer_effects l));
            p1 = (if mirrorX (layer_effects l) then (fst p - sourceWidth, snd p) else p)
        in (if mirrorY (layer_effects l) then (fst p1, snd p1 - sourceHeight) else p1)) ps"

definition rotatePointer :: "real \<Rightarrow> real \<Rightarrow> layer \<Rightarrow> real \<Rightarrow> real \<Rightarrow> point" where
  "rotatePointer px py l sourceWidth sourceHeight =
     hd (rotatePointerLists [(px, py)] l sourceWidth sourceHeight)"

text \<open>
  \<open>debouncePaintStore( timeout = 5000 )\<close>; the default value of the parameter is passed
  by the one caller that leaves it out, \<open>preparePendingPaintState\<close>.
\<close>

definition debouncePaintStore :: "nat \<Rightarrow> sprite \<Rightarrow> sprite" where
  "debouncePaintStore timeout s =
     (let (t, s1) = setTimeout timeout s in s1\<lparr>pendingPaintState := Some t\<rparr>)"

definition preparePendingPaintState :: "sprite \<Rightarrow> sprite" where
  "preparePendingPaintState s =
     debouncePaintStore 5000 ((emit CanvasToBlob s)\<lparr>jobs := jobs s @ [PrepareJob]\<rparr>)"

text \<open>
  \<open>storePaintState\<close> returns \<open>true\<close>, \<open>false\<close> or the promise of the history entry; the
  continuation of that promise is the \<open>CommitJob\<close> it leaves behind.
\<close>

datatype store_result = ReturnsTrue | ReturnsFalse | ReturnsPromise

definition storePaintState :: "sprite \<Rightarrow> store_result \<times> sprite" where
  "storePaintState s =
     (if absent (pendingPaintState s) then (ReturnsTrue, s)
      else
        let s1 = clearTimeout (case pendingPaintState s of Some t \<Rightarrow> t | None \<Rightarrow> 0) s
        in if down (brush s1) then (ReturnsFalse, debouncePaintStore 1000 s1)
           else (ReturnsPromise,
                 (emit CanvasToBlob s1)
                   \<lparr>pendingPaintState := None,
                    orgSourceToStore := None,
                    jobs := jobs s1 @ [CommitJob (layer_id (layer s1)) (orgSourceToStore s1)]\<rparr>))"

text \<open>
  The continuation of the \<open>n\<close>-th unresolved promise runs: \<open>blobToResource\<close> hands out a
  new resource; the continuation of \<open>preparePendingPaintState\<close> stores it, the one of
  \<open>storePaintState\<close> enqueues the history entry.
\<close>

definition resolveJob :: "nat \<Rightarrow> sprite \<Rightarrow> sprite" where
  "resolveJob n s =
     (if n < length (jobs s) then
        let r = Suc (resourceCount s);
            s1 = s\<lparr>jobs := take n (jobs s) @ drop (Suc n) (jobs s), resourceCount := r\<rparr>
        in (case jobs s ! n of
              PrepareJob \<Rightarrow> s1\<lparr>orgSourceToStore := Some r\<rparr>
            | CommitJob lid orgState \<Rightarrow> emit (EnqueueState (SpritePaint lid orgState r)) s1)
      else s)"

text \<open>
  A timer of \<open>debouncePaintStore\<close> fires: it leaves the set of armed timers and its
  callback, \<open>storePaintState\<close>, runs.
\<close>

definition fireTimer :: "nat \<Rightarrow> sprite \<Rightarrow> sprite" where
  "fireTimer t s =
     (if t \<in> fst ` set (timers s)
      then snd (storePaintState (s\<lparr>timers := filter (\<lambda>(i, d). i \<noteq> t) (timers s)\<rparr>))
      else s)"

subsection \<open>The stroke-paint procedure\<close>

text \<open>
  \<open>paint\<close> is split along the blocks of the source. Each block returns the sprite and,
  where the source reassigns them, the local variables \<open>ctx\<close> and \<open>selectionPoints\<close>.
  The tool kind, which the source reads into \<open>isEraser\<close>, \<open>isCloneStamp\<close> and
  \<open>isFillMode\<close> at the start, is read where it is used: no block assigns it. A method
  that can throw returns the error, if any, with the state reached when it was thrown.
\<close>

text \<open>Lines 276-285: the selection that constrains the paint, and the clipping save.\<close>

definition paint_clip ::
  "ctx_id \<Rightarrow> real \<Rightarrow> real \<Rightarrow> bool \<Rightarrow> opt_action option \<Rightarrow> sprite \<Rightarrow> point list option \<times> sprite" where
  "paint_clip ctx width height isLowResPreview optAction s =
     (let selectionPoints =
            (case optAction of
               None \<Rightarrow> selection s
             | Some a \<Rightarrow> (case oa_selection a of None \<Rightarrow> selection s | Some ps \<Rightarrow> Some ps))
      in case selectionPoints of
           None \<Rightarrow> (None, s)
         | Some ps \<Rightarrow>
             let rotate = (isRotated s \<and> \<not> isLowResPreview);
                 ps1 = (if rotate then rotatePointerLists ps (layer s) width height else ps);
                 left = (if rotate then 0 else layer_left (layer s));
                 top1 = (if rotate then 0 else layer_top (layer s))
             in (Some ps1,
                 emit (ClipContextToSelection ctx ps1 left top1 (invertSelection s) False)
                   (emit (CtxSave ctx) s)))"

text \<open>Lines 287-292: an action passed by the caller.\<close>

definition paint_action :: "ctx_id \<Rightarrow> opt_action \<Rightarrow> sprite \<Rightarrow> sprite" where
  "paint_action ctx a s =
     (if oa_type a = ''stroke''
      then emit (CtxStroke ctx)
             (emit (CtxSet ctx ''lineWidth''
                      (JNum ((case oa_size a of None \<Rightarrow> 1 | Some z \<Rightarrow> if z = 0 then 1 else z)
                             / documentScale s)))
                (emit (CtxSet ctx ''strokeStyle'' (JStr (oa_color a))) s))
      else s)"

text \<open>Lines 293-308: the fill tool.\<close>

definition paint_fill :: "ctx_id \<Rightarrow> real \<Rightarrow> real \<Rightarrow> sprite \<Rightarrow> error option \<times> sprite" where
  "paint_fill ctx width height s =
     (let c = activeColor (store s)
      in case toolOptions s of
           None \<Rightarrow> (Some TypeError, s)
         | Some opts \<Rightarrow>
             let s1 = (if smartFill opts
                       then (let pt = rotatePointer (pointerX s) (pointerY s) (layer s) width height
                             in emit (FloodFill ctx (fst pt) (snd pt) c) s)
                       else (let s' = emit (CtxSet ctx ''fillStyle'' (JStr (activeColor (store s)))) s
                             in if selection s' \<noteq> None then emit (CtxFill ctx) s'
                                else emit (CtxFillRect ctx 0 0 width height) s'))
             in (None, if selection s1 \<noteq> None then emit (CtxClosePath ctx) s1 else s1))"

text \<open>
  Lines 310-359: clone stamp, brush and eraser. The result holds the context that the
  variable \<open>ctx\<close> names when the block is left.
\<close>

definition paint_brush ::
  "ctx_id \<Rightarrow> real \<Rightarrow> real \<Rightarrow> bool \<Rightarrow> bool \<Rightarrow> bool \<Rightarrow> point list option \<Rightarrow> sprite
     \<Rightarrow> error option \<times> ctx_id \<times> sprite" where
  "paint_brush orgContext width height isLowResPreview isEraser isCloneStamp selectionPoints s =
     (let ps = slicePointers (brush s)
      in if isCloneStamp then
           (if isLowResPreview then
              (case toolOptions s of
                 None \<Rightarrow> (Some TypeError, orgContext, s)
               | Some opts \<Rightarrow>
                   (None, orgContext,
                    emit (SetBitmap orgContext)
                      (emit (RenderClonedStroke orgContext (brush s) (sourceLayerId opts)
                               (rotatePointerLists ps (layer s) width height)) s)))
            else (None, orgContext, s))
         else if isLowResPreview then
           (let s1 = (if tempCanvas s \<noteq> None then s
                      else emit GetTempCanvas (s\<lparr>tempCanvas := Some TempCanvas\<rparr>));
                s2 = emit (CreateOverrideConfig ps) s1;
                s3 = (case selectionPoints of
                        None \<Rightarrow> s2
                      | Some sel \<Rightarrow>
                          if tempCanvas s2 \<noteq> None
                          then emit (ClipContextToSelection TempCtx sel 0 0 (invertSelection s2) True)
                                 (emit (CtxSave TempCtx) s2)
                          else s2);
                s4 = emit (RenderBrushStroke TempCtx (brush s3) True) s3
            in (None, TempCtx,
                if selectionPoints \<noteq> None \<and> tempCanvas s4 \<noteq> None
                then emit (CtxRestore orgContext) s4 else s4))
         else
           (let s1 = emit (CtxScale ScratchCtx
                             (if mirrorX (layer_effects (layer s)) then - 1 else 1)
                             (if mirrorY (layer_effects (layer s)) then - 1 else 1))
                       (emit (CreateCanvas width height) s);
                s2 = s1\<lparr>brush := (brush s1)
                         \<lparr>pointers := rotatePointerLists (pointers (brush s1)) (layer s1) width height\<rparr>\<rparr>;
                s3 = emit (RenderBrushStroke ScratchCtx (brush s2) False) s2;
                s4 = emit (CtxSet orgContext ''globalAlpha'' (JNum (opacity (options (brush s3))))) s3;
                s5 = (if isEraser
                      then emit (CtxSet orgContext ''globalCompositeOperation''
                                   (JStr ''destination-out'')) s4
                      else s4)
            in (None, orgContext, emit (CtxDrawImage orgContext ScratchCtx) s5)))"

text \<open>Lines 260-267 and 273: the values that \<open>paint\<close> computes from the sprite.\<close>

definition drawingContext :: "sprite \<Rightarrow> ctx_id" where
  "drawingContext s = (if isMaskable s then LayerMask else LayerSource)"

definition drawingCanvas :: "sprite \<Rightarrow> canvas_el" where
  "drawingCanvas s =
     (if isMaskable s
      then (case mask (layer s) of Some m \<Rightarrow> m | None \<Rightarrow> source (layer s))
      else source (layer s))"

definition isLowResPreview :: "sprite \<Rightarrow> bool" where
  "isLowResPreview s = (down (brush s) \<and> \<not> (isMaskable s \<and> toolType s = Some ERASER))"

text \<open>Lines 287-360: the action of the caller, the fill tool, or a brush.\<close>

definition paint_dispatch ::
  "ctx_id \<Rightarrow> real \<Rightarrow> real \<Rightarrow> bool \<Rightarrow> opt_action option \<Rightarrow> point list option \<Rightarrow> sprite
     \<Rightarrow> error option \<times> ctx_id \<times> sprite" where
  "paint_dispatch ctx width height lowRes optAction selectionPoints s =
     (case optAction of
        Some a \<Rightarrow> (None, ctx, paint_action ctx a s)
      | None \<Rightarrow>
          if toolType s = Some FILL
          then (fst (paint_fill ctx width height s), ctx, snd (paint_fill ctx width height s))
          else paint_brush ctx width height lowRes (toolType s = Some ERASER)
                 (toolType s = Some CLONE) selectionPoints s)"

text \<open>
  Lines 361-369: the two restores, on the context that \<open>ctx\<close> names by then, and the
  refresh of the effects after a full-resolution pass.
\<close>

definition paint_restore :: "bool \<Rightarrow> point list option \<Rightarrow> ctx_id \<Rightarrow> sprite \<Rightarrow> sprite" where
  "paint_restore lowRes selectionPoints ctx s =
     (let s1 = (if selectionPoints \<noteq> None then emit (CtxRestore ctx) s else s);
          s2 = emit (CtxRestore ctx) s1
      in if \<not> lowRes then resetFilterAndRecache s2 else s2)"

text \<open>Lines 257-369: \<open>paint\<close> once the pending paint state has been prepared.\<close>

definition paint_body :: "opt_action option \<Rightarrow> sprite \<Rightarrow> error option \<times> sprite" where
  "paint_body optAction s =
     (let ctx = drawingContext s;
          width = cvs_width (drawingCanvas s);
          height = cvs_height (drawingCanvas s);
          s1 = emit (CtxSave ctx) (emit (GetContext ctx) s);
          lowRes = isLowResPreview s1;
          clip = paint_clip ctx width height lowRes optAction s1;
          r = paint_dispatch ctx width height lowRes optAction (fst clip) (snd clip)
      in case fst r of
           Some e \<Rightarrow> (Some e, snd (snd r))
         | None \<Rightarrow> (None, paint_restore lowRes (fst clip) (fst (snd r)) (snd (snd r))))"

definition paint :: "opt_action option \<Rightarrow> sprite \<Rightarrow> error option \<times> sprite" where
  "paint optAction s =
     paint_body optAction
       (if absent (pendingPaintState s) then preparePendingPaintState s else s)"

subsection \<open>Tool activation and pointer events\<close>

definition setDraggable :: "bool \<Rightarrow> sprite \<Rightarrow> sprite" where
  "setDraggable v s = s\<lparr>draggable := v\<rparr>"

text \<open>Lines 193-200: the fields that \<open>handleActiveTool\<close> resets before anything else.\<close>

definition resetInteraction :: "sprite \<Rightarrow> sprite" where
  "resetInteraction s =
     s\<lparr>isDragging := False, isPaintMode := False, isDragMode := False,
       isColorPicker := False, selection := None, toolType := None,
       toolOptions := None, cloneStartCoords := None\<rparr>"

text \<open>Lines 205-241: what follows the call of \<open>storePaintState\<close>.\<close>

definition activateTool :: "tool_type option \<Rightarrow> tool_options \<Rightarrow> document \<Rightarrow> sprite \<Rightarrow> sprite" where
  "activateTool tool toolOpts activeDocument s =
     (if \<not> interactive s \<or> tool = None then s
      else
        let s1 = s\<lparr>toolType := tool, toolOptions := Some toolOpts\<rparr>;
            drawable = (tool = Some FILL \<or> tool = Some ERASER \<or> tool = Some BRUSH
                        \<or> tool = Some CLONE)
        in emit Invalidate
             (if tool = Some DRAG then setDraggable True (s1\<lparr>isDragMode := True\<rparr>)
              else if drawable then
                setSelection activeDocument True
                  (cacheBrush (activeColor (store s1)) toolOpts
                     ((setDraggable True (forceMoveListener s1))\<lparr>isPaintMode := True\<rparr>))
              else if tool = Some EYEDROPPER then s1\<lparr>isColorPicker := True\<rparr>
              else setDraggable False s1))"

definition handleActiveTool :: "tool_type option \<Rightarrow> tool_options \<Rightarrow> document \<Rightarrow> sprite \<Rightarrow> sprite" where
  "handleActiveTool tool toolOpts activeDocument s =
     activateTool tool toolOpts activeDocument (snd (storePaintState (resetInteraction s)))"

text \<open>\<open>type.startsWith( "touch" )\<close>\<close>

definition startsWithTouch :: "string \<Rightarrow> bool" where
  "startsWithTouch ty = (take 5 ty = ''touch'')"

definition handlePress :: "real \<Rightarrow> real \<Rightarrow> string \<Rightarrow> sprite \<Rightarrow> error option \<times> sprite" where
  "handlePress px py ty s0 =
     (let s = (if startsWithTouch ty then s0\<lparr>pointerX := px, pointerY := py\<rparr> else s0)
      in if isColorPicker s then
           (let c = canvasColorAt s (px, py)
            in (None, emit (CommitSetActiveColor c) (s\<lparr>store := (store s)\<lparr>activeColor := c\<rparr>\<rparr>)))
         else if isPaintMode s then
           (if toolType s = Some CLONE then
              (case toolOptions s of
                 None \<Rightarrow> (Some TypeError, s)
               | Some opts \<Rightarrow>
                   if coords opts = None
                   then (None, s\<lparr>toolOptions := Some (opts\<lparr>coords := Some (px, py)\<rparr>),
                                 cloneStartCoords := None\<rparr>)
                   else (None, storeBrushPointer px py
                           (if cloneStartCoords s = None
                            then s\<lparr>cloneStartCoords := Some (px, py)\<rparr> else s)))
            else if toolType s = Some FILL then paint None s
            else (None, storeBrushPointer px py s))
         else if isDragMode s then (None, s\<lparr>draggingSprite := True\<rparr>)
         else (None, s))"

text \<open>
  Lines 527-545: the mask is dragged. \<open>getSpriteForLayer\<close> finds this sprite when it is
  registered for its layer.
\<close>

definition moveMask :: "real \<Rightarrow> real \<Rightarrow> sprite \<Rightarrow> sprite" where
  "moveMask px py s =
     (let l = layer s;
          newMaskX = fst (dragStartOffset s)
                     + ((px - boundsLeft s) - fst (dragStartEventCoordinates s));
          newMaskY = snd (dragStartOffset s)
                     + ((py - boundsTop s) - snd (dragStartEventCoordinates s));
          s1 = s\<lparr>layer := l\<lparr>maskX := newMaskX, maskY := newMaskY\<rparr>\<rparr>;
          s2 = (if registered s1 then resetFilterAndRecache s1 else s1)
      in emit (EnqueueState (MaskPos (layer_id l) (maskX l, maskY l) (newMaskX, newMaskY))) s2)"

text \<open>Lines 552-557: while the brush is down, the pointer is recorded.\<close>

definition moveBrush :: "real \<Rightarrow> real \<Rightarrow> sprite \<Rightarrow> sprite" where
  "moveBrush px py s = (if down (brush s) then storeBrushPointer px py s else s)"

definition handleMove :: "real \<Rightarrow> real \<Rightarrow> string \<Rightarrow> sprite \<Rightarrow> sprite" where
  "handleMove px py ty s0 =
     (let s = (if \<not> startsWithTouch ty then s0\<lparr>pointerX := px, pointerY := py\<rparr> else s0)
      in if \<not> isPaintMode s then
           (if actionTarget s = ''mask'' then moveBrush px py (moveMask px py s)
            else if isDragMode s then emit (SuperHandleMove px py) s
            else moveBrush px py s)
         else moveBrush px py s)"

text \<open>
  Lines 422-463: \<open>setBounds( x, y, width = 0, height = 0 )\<close>. The history entry holds the
  old and the new position of the sprite and of the layer, which its undo and redo write
  back.
  Modelled from the spec: the \<open>setBounds\<close> of the base class (zCanvas) is missing; the spec
  has the bounds mutation update "the sprite's visual bounds", here to the position and
  size that are passed.
\<close>

definition setBounds :: "real \<Rightarrow> real \<Rightarrow> real \<Rightarrow> real \<Rightarrow> sprite \<Rightarrow> sprite" where
  "setBounds bx bz width height s =
     (let l = layer s;
          left = boundsLeft s;
          top1 = boundsTop s;
          oldLayerX = layer_left l;
          oldLayerY = layer_top l;
          w = (if width = 0 \<or> height = 0 then boundsWidth s else width);
          h = (if width = 0 \<or> height = 0 then boundsHeight s else height);
          s1 = s\<lparr>boundsLeft := bx, boundsTop := bz, boundsWidth := w, boundsHeight := h\<rparr>;
          newX = boundsLeft s1;
          newY = boundsTop s1;
          newLayerX = layer_left l + (newX - left);
          newLayerY = layer_top l + (newY - top1);
          s2 = s1\<lparr>layer := l\<lparr>layer_left := newLayerX, layer_top := newLayerY\<rparr>\<rparr>
      in emit Invalidate
           (emit (EnqueueState (SpritePos (layer_id l) (left, top1) (oldLayerX, oldLayerY)
                                  (newX, newY) (newLayerX, newLayerY))) s2))"

text \<open>
  Modelled from the spec: \<open>snapSpriteToGuide\<close> (rendering/snapping) is missing; the spec
  has it a guide-snapping service, invoked only at drag release, that snaps "the sprite to
  the nearest alignment guide". The call is recorded in the trace; when a guide is in
  reach the sprite is moved to the position the guide gives it, by its own \<open>setBounds\<close>,
  the repositioning that keeps the position of the layer and the history in step.
\<close>

definition snapSpriteToGuide :: "sprite \<Rightarrow> sprite" where
  "snapSpriteToGuide s =
     (case guideSnap s of
        None \<Rightarrow> emit SnapSpriteToGuide s
      | Some g \<Rightarrow> setBounds (fst g) (snd g) 0 0 (emit SnapSpriteToGuide s))"

text \<open>Lines 576-585: the end of \<open>handleRelease\<close>.\<close>

definition releaseMode :: "sprite \<Rightarrow> sprite" where
  "releaseMode s =
     (if isPaintMode s then forceMoveListener s
      else if isDragMode s
      then (if snapAlign (store s) then snapSpriteToGuide s else s)\<lparr>draggingSprite := False\<rparr>
      else s)"

definition handleRelease :: "real \<Rightarrow> real \<Rightarrow> sprite \<Rightarrow> error option \<times> sprite" where
  "handleRelease px py s =
     (if down (brush s) then
        (let s1 = (emit DisposeTempCanvas s)\<lparr>tempCanvas := None\<rparr>;
             s2 = s1\<lparr>brush := (brush s1)\<lparr>down := False, last_idx := 0\<rparr>\<rparr>
         in case paint None s2 of
              (Some e, s3) \<Rightarrow> (Some e, s3)
            | (None, s3) \<Rightarrow>
                let s4 = s3\<lparr>brush := (brush s3)\<lparr>pointers := []\<rparr>\<rparr>;
                    s5 = (if \<not> lowMemory (store s4) then snd (storePaintState s4) else s4)
                in (None, releaseMode s5))
      else (None, releaseMode s))"

definition update :: "sprite \<Rightarrow> error option \<times> sprite" where
  "update s =
     (if down (brush s) then
        (case paint None s of
           (Some e, s1) \<Rightarrow> (Some e, s1)
         | (None, s1) \<Rightarrow> (None, s1\<lparr>brush := (brush s1)\<lparr>last_idx := length (pointers (brush s1))\<rparr>\<rparr>))
      else (None, s))"

subsection \<open>The life of a sprite\<close>

text \<open>
  The constructor: the pointer at the origin, a brush from the factory, the action target
  \<open>source\<close>, and a first request to render the effects. The fields it does not assign
  are undefined in the source, which reads as \<open>False\<close> or as no value here. What the
  constructor takes from its surroundings (the store, the canvas, the defaults of the
  brush factory) are parameters.
\<close>

definition LayerSprite ::
  "layer \<Rightarrow> store_getters \<Rightarrow> brush \<Rightarrow> real \<Rightarrow> (point \<Rightarrow> string) \<Rightarrow> sprite" where
  "LayerSprite l st b scl px =
     cacheEffects
       \<lparr>layer = l, store = st, boundsLeft = layer_left l, boundsTop = layer_top l,
        boundsWidth = layer_width l, boundsHeight = layer_height l,
        pointerX = 0, pointerY = 0,
        brush = BrushFactory_create (color b) (radius b) [] (options b),
        actionTarget = ''source'', interactive = False, draggable = False,
        isDragging = False, isPaintMode = False, isDragMode = False, isColorPicker = False,
        selection = None, invertSelection = False, toolType = None, toolOptions = None,
        cloneStartCoords = None, dragStartOffset = (0, 0),
        dragStartEventCoordinates = (0, 0), tempCanvas = None,
        pendingPaintState = None, orgSourceToStore = None, rafFx = False,
        registered = True, draggingSprite = False, documentScale = scl,
        canvasColorAt = px, guideSnap = None, timers = [], timerCount = 0, jobs = [],
        resourceCount = 0, trace = []\<rparr>"

text \<open>
  What can happen to a sprite: the calls that its callers make (the canvas for the
  pointer events and the frame update, the tool and layer watchers, a caller that paints
  an action), and the callbacks that the sprite has left with the environment (a timer
  of \<open>debouncePaintStore\<close> fires, a promise of \<open>canvasToBlob\<close> resolves, the effects have
  been rendered, the guides of the canvas change). \<open>preparePendingPaintState\<close> and
  \<open>debouncePaintStore\<close> have no caller but \<open>paint\<close> and \<open>storePaintState\<close>, and run as
  part of them.
\<close>

datatype op =
    HandleActiveLayer string
  | SetActionTarget string
  | HandleActiveTool "tool_type option" tool_options document
  | HandlePress real real string
  | HandleMove real real string
  | HandleRelease real real
  | Update
  | Paint "opt_action option"
  | StorePaintState
  | FireTimer nat
  | ResolveJob nat
  | EffectsRendered
  | GuidesChange "point option"

fun step :: "op \<Rightarrow> sprite \<Rightarrow> sprite" where
  "step (HandleActiveLayer k) s = s\<lparr>interactive := (layer_id (layer s) = k)\<rparr>"
| "step (SetActionTarget tg) s = s\<lparr>actionTarget := tg\<rparr>"
| "step (HandleActiveTool tool toolOpts doc) s = handleActiveTool tool toolOpts doc s"
| "step (HandlePress px py ty) s = snd (handlePress px py ty s)"
| "step (HandleMove px py ty) s = handleMove px py ty s"
| "step (HandleRelease px py) s = snd (handleRelease px py s)"
| "step Update s = snd (update s)"
| "step (Paint a) s = snd (paint a s)"
| "step StorePaintState s = snd (storePaintState s)"
| "step (FireTimer t) s = fireTimer t s"
| "step (ResolveJob n) s = resolveJob n s"
| "step EffectsRendered s = emit (SetLock False) (s\<lparr>rafFx := False\<rparr>)"
| "step (GuidesChange g) s = s\<lparr>guideSnap := g\<rparr>"

fun run :: "op list \<Rightarrow> sprite \<Rightarrow> sprite" where
  "run [] s = s"
| "run (c # cs) s = run cs (step c s)"

subsection \<open>Reading a trace\<close>

text \<open>The number of times \<open>paint\<close> ran: each run fetches its drawing context once.\<close>

fun isGetContext :: "event \<Rightarrow> bool" where
  "isGetContext (GetContext c) = True"
| "isGetContext e = False"

definition paintCount :: "event list \<Rightarrow> nat" where
  "paintCount tr = length (filter isGetContext tr)"

text \<open>The events that draw into a canvas, and the ones that add a history entry.\<close>

fun isRasterWrite :: "event \<Rightarrow> bool" where
  "isRasterWrite (CtxStroke c) = True"
| "isRasterWrite (CtxFill c) = True"
| "isRasterWrite (CtxFillRect c a b w h) = True"
| "isRasterWrite (CtxDrawImage c d) = True"
| "isRasterWrite (FloodFill c a b k) = True"
| "isRasterWrite (RenderClonedStroke c b k ps) = True"
| "isRasterWrite (RenderBrushStroke c b ov) = True"
| "isRasterWrite e = False"

fun isEnqueueState :: "event \<Rightarrow> bool" where
  "isEnqueueState (EnqueueState h) = True"
| "isEnqueueState e = False"

text \<open>
  The saves and restores of a trace, and the stack of saved contexts that a trace leaves
  when each restore has to meet the save it undoes: \<open>None\<close> when a restore falls on a
  context other than the one saved last, or on no save at all.
\<close>

fun isSaveRestore :: "event \<Rightarrow> bool" where
  "isSaveRestore (CtxSave c) = True"
| "isSaveRestore (CtxRestore c) = True"
| "isSaveRestore e = False"

fun saveStack :: "event list \<Rightarrow> ctx_id list \<Rightarrow> ctx_id list option" where
  "saveStack [] st = Some st"
| "saveStack (CtxSave c # es) st = saveStack es (c # st)"
| "saveStack (CtxRestore c # es) st =
     (case st of [] \<Rightarrow> None | d # ds \<Rightarrow> if c = d then saveStack es ds else None)"
| "saveStack (e # es) st = saveStack es st"

text \<open>
  The events that a call has added to the trace, and the saves and restores, the canvas
  writes and the history entries of a sprite's trace.
\<close>

definition newEvents :: "sprite \<Rightarrow> sprite \<Rightarrow> event list" where
  "newEvents s s' = drop (length (trace s)) (trace s')"

definition sr :: "sprite \<Rightarrow> event list" where
  "sr s = filter isSaveRestore (trace s)"

definition rasterWrites :: "sprite \<Rightarrow> event list" where
  "rasterWrites s = filter isRasterWrite (trace s)"


text \<open>The pointer moves of one frame interval, as calls of \<open>handleMove\<close>.\<close>

definition moveOps :: "(real \<times> real \<times> string) list \<Rightarrow> op list" where
  "moveOps ms = map (\<lambda>(mx, my, ty). HandleMove mx my ty) ms"

subsection \<open>Invariants and frames\<close>

text \<open>
  At most one timer of \<open>debouncePaintStore\<close> is armed, and it is the one whose handle
  \<open>_pendingPaintState\<close> holds.
\<close>

definition singleTimer :: "sprite \<Rightarrow> bool" where
  "singleTimer s =
     (length (timers s) \<le> 1
      \<and> list_all (\<lambda>(t, d). pendingPaintState s = Some t \<and> 0 < t) (timers s))"

text \<open>What the timers of a sprite consist of.\<close>

definition tp :: "sprite \<Rightarrow> (nat \<times> nat) list \<times> nat option \<times> nat" where
  "tp s = (timers s, pendingPaintState s, timerCount s)"

text \<open>
  What \<open>paint\<close> leaves alone once the pending paint state has been prepared: all of the
  sprite but its trace, the recorded pointers, the low-resolution canvas and the flag of
  \<open>cacheEffects\<close>. A block of \<open>paint\<close> only adds to the trace, fetches no drawing
  context, keeps the number of pointers, and creates the low-resolution canvas only while
  the brush is down.
\<close>

definition rest :: "sprite \<Rightarrow> sprite" where
  "rest s = s\<lparr>trace := [], brush := (brush s)\<lparr>pointers := []\<rparr>, tempCanvas := None, rafFx := False\<rparr>"

definition paintStep :: "sprite \<Rightarrow> sprite \<Rightarrow> bool" where
  "paintStep s s' =
     (rest s' = rest s
      \<and> prefix (trace s) (trace s')
      \<and> paintCount (trace s') = paintCount (trace s)
      \<and> length (pointers (brush s')) = length (pointers (brush s))
      \<and> (down (brush s) \<or> tempCanvas s' = tempCanvas s))"

subsection \<open>A sprite to run\<close>

text \<open>
  A 100 x 100 layer without mask, rotation or mirroring, its sprite made interactive, and
  a brush stroke on it that has been pressed, moved once and painted by one frame update.
\<close>

definition exLayer :: layer where
  "exLayer =
     \<lparr>layer_id = ''L1'', layer_left = 0, layer_top = 0, layer_width = 100, layer_height = 100,
      source = \<lparr>cvs_id = 1, cvs_width = 100, cvs_height = 100\<rparr>, mask = None,
      maskX = 0, maskY = 0,
      layer_effects = \<lparr>mirrorX = False, mirrorY = False, rotation = 0, scale = 1\<rparr>,
      canDrawOnSelection = True\<rparr>"

definition exStore :: store_getters where
  "exStore = \<lparr>activeColor = ''red'', activeLayerMask = None, lowMemory = False, snapAlign = False\<rparr>"

definition exOptions :: tool_options where
  "exOptions = \<lparr>opt_size = 5, opacity = 1, smartFill = False, coords = None, sourceLayerId = ''L0''\<rparr>"

definition exDocument :: document where
  "exDocument = \<lparr>doc_selection = None, doc_invertSelection = False\<rparr>"

definition exSprite :: sprite where
  "exSprite =
     step (HandleActiveLayer ''L1'')
       (LayerSprite exLayer exStore (BrushFactory_create ''red'' 5 [] exOptions) 1 (\<lambda>p. ''rgba(0,0,0,0)''))"

definition exStroke :: sprite where
  "exStroke =
     run [HandleActiveTool (Some BRUSH) exOptions exDocument,
          HandlePress 10 10 ''mousedown'',
          HandleMove 20 10 ''mousemove'',
          Update] exSprite"


text \<open>The same sprite after one press of the fill tool.\<close>

definition exFilled :: sprite where
  "exFilled =
     run [HandleActiveTool (Some FILL) exOptions exDocument,
          HandlePress 10 10 ''mousedown''] exSprite"

text \<open>
  The brush stroke right after the press, without and with a closed selection; the brush
  stroke interrupted by the activation of the drag tool and a second press before any
  release; the clone tool just activated; a drag that has been pressed, with snapping to
  guides switched on.
\<close>

definition exPressed :: sprite where
  "exPressed =
     run [HandleActiveTool (Some BRUSH) exOptions exDocument,
          HandlePress 10 10 ''mousedown''] exSprite"

definition exSelection :: document where
  "exSelection =
     \<lparr>doc_selection = Some [(0, 0), (50, 0), (50, 50), (0, 0)], doc_invertSelection = False\<rparr>"

definition exPressedSelected :: sprite where
  "exPressedSelected =
     run [HandleActiveTool (Some BRUSH) exOptions exSelection,
          HandlePress 10 10 ''mousedown''] exSprite"

definition exSwitched :: sprite where
  "exSwitched =
     run [HandleActiveTool (Some BRUSH) exOptions exDocument,
          HandlePress 10 10 ''mousedown'',
          HandleActiveTool (Some DRAG) exOptions exDocument,
          HandlePress 15 10 ''mousedown''] exSprite"

definition exClone :: sprite where
  "exClone = run [HandleActiveTool (Some CLONE) exOptions exDocument] exSprite"

definition exDragging :: sprite where
  "exDragging =
     run [HandleActiveTool (Some DRAG) exOptions exDocument,
          HandlePress 10 10 ''mousedown''] (exSprite\<lparr>store := exStore\<lparr>snapAlign := True\<rparr>\<rparr>)"

text \<open>
  The same drag with a guide in reach, which gives the sprite the position (40, 0); a
  stroke of the clone tool, whose first press has set the source coordinates and whose
  second press has started the stroke, moved once and painted by one frame update.
\<close>

definition exGuided :: sprite where
  "exGuided =
     run [GuidesChange (Some (40, 0)),
          HandleActiveTool (Some DRAG) exOptions exDocument,
          HandlePress 10 10 ''mousedown''] (exSprite\<lparr>store := exStore\<lparr>snapAlign := True\<rparr>\<rparr>)"

definition exCloneStroke :: sprite where
  "exCloneStroke =
     run [HandleActiveTool (Some CLONE) exOptions exDocument,
          HandlePress 5 5 ''mousedown'',
          HandleRelease 5 5,
          HandlePress 50 50 ''mousedown'',
          HandleMove 60 50 ''mousemove'',
          Update] exSprite"

section \<open>Properties of the image math\<close>

text \<open>
  Claim C10. For strictly positive image and destination sizes, \<open>scaleToRatio\<close> returns a
  size with the aspect ratio of the image (exactly, on the reals) that covers the
  destination area: its width is at least \<open>destWidth\<close> and its height at least
  \<open>destHeight\<close>.
\<close>

theorem scaleToRatio_covers:
  assumes "0 < imageWidth" and "0 < imageHeight" and "0 < destWidth" and "0 < destHeight"
  shows "fst (scaleToRatio imageWidth imageHeight destWidth destHeight)
           / snd (scaleToRatio imageWidth imageHeight destWidth destHeight)
         = imageWidth / imageHeight
       \<and> destWidth \<le> fst (scaleToRatio imageWidth imageHeight destWidth destHeight)
       \<and> destHeight \<le> snd (scaleToRatio imageWidth imageHeight destWidth destHeight)"
proof -
  define h where "h = destWidth * (imageHeight / imageWidth)"
  have hpos: "0 < h" using assms by (simp add: h_def)
  have hd: "destWidth / h = imageWidth / imageHeight"
    using assms by (simp add: h_def field_simps)
  have height_eq:
    "(if imageWidth > imageHeight then destWidth * (imageHeight / imageWidth)
      else if imageHeight > imageWidth then destWidth * (imageHeight / imageWidth)
      else if imageHeight = imageWidth then destWidth
      else destHeight) = h"
    using assms by (auto simp: h_def)
  have eq: "scaleToRatio imageWidth imageHeight destWidth destHeight =
      (if h < destHeight then (destWidth * (destHeight / h), destHeight) else (destWidth, h))"
    unfolding scaleToRatio_def height_eq Let_def ..
  show ?thesis
  proof (cases "h < destHeight")
    case True
    have "destWidth * (destHeight / h) / destHeight = destWidth / h"
      using assms hpos by (simp add: field_simps)
    moreover have "1 \<le> destHeight / h" using True hpos by (simp add: field_simps)
    then have "destWidth * 1 \<le> destWidth * (destHeight / h)"
      using assms(3) by (intro mult_left_mono) simp_all
    ultimately show ?thesis using True hd by (simp add: eq)
  next
    case False
    then show ?thesis using hd by (simp add: eq)
  qed
qed

theorem scaleToRatio_covers_witness:
  "scaleToRatio 4 2 10 8 = (16, 8) \<and> (16::real) / 8 = 4 / 2 \<and> (10::real) \<le> 16 \<and> (8::real) \<le> 8"
  using scaleToRatio_covers [of 4 2 10 8] by (simp add: scaleToRatio_def)

lemma roundTiesToEven_of_int: "roundTiesToEven (of_int n) = n"
  by (simp add: roundTiesToEven_def)

lemma toDouble_exact:
  assumes "0 < v" and "2 powr of_int e \<le> v" and "v < 2 powr of_int (e + 1)"
    and "- 1022 \<le> e" and "v = of_int n * 2 powr of_int (e - 52)"
  shows "toDouble v = v"
proof -
  have "\<lfloor>log 2 v\<rfloor> = e"
    using assms(1-3) by (subst floor_log_eq_powr_iff) simp_all
  then have e: "max \<lfloor>log 2 \<bar>v\<bar>\<rfloor> (- 1022) = e" using assms(1,4) by simp
  have u: "(2::real) powr of_int (e - 52) \<noteq> 0" by simp
  have q: "v / 2 powr of_int (e - 52) = of_int n"
    using assms(5) u by (simp add: field_simps)
  have nz: "v \<noteq> 0" using assms(1) by simp
  have "toDouble v
        = of_int (roundTiesToEven (v / 2 powr of_int (e - 52))) * 2 powr of_int (e - 52)"
    unfolding toDouble_def Let_def e using nz by (simp only: if_False)
  also have "\<dots> = of_int n * 2 powr of_int (e - 52)"
    by (simp only: q roundTiesToEven_of_int)
  also have "\<dots> = v" by (simp only: assms(5))
  finally show ?thesis .
qed

lemma toDouble_16: "toDouble 16 = 16"
  by (rule toDouble_exact [where e = 4 and n = "2 ^ 52"]) (simp_all add: powr_minus field_simps)

lemma toDouble_3: "toDouble 3 = 3"
  by (rule toDouble_exact [where e = 1 and n = "3 * 2 ^ 51"]) (simp_all add: powr_minus field_simps)

lemma toDouble_4: "toDouble 4 = 4"
  by (rule toDouble_exact [where e = 2 and n = "2 ^ 52"]) (simp_all add: powr_minus field_simps)

lemma toDouble_3_4: "toDouble (3 / 4) = 3 / 4"
  by (rule toDouble_exact [where e = "- 1" and n = "3 * 2 ^ 51"]) (simp_all add: powr_minus field_simps)

lemma toDouble_3_2: "toDouble (3 / 2) = 3 / 2"
  by (rule toDouble_exact [where e = 0 and n = "3 * 2 ^ 51"]) (simp_all add: powr_minus field_simps)

lemma toDouble_6: "toDouble 6 = 6"
  by (rule toDouble_exact [where e = 2 and n = "3 * 2 ^ 51"]) (simp_all add: powr_minus field_simps)

lemma toDouble_2: "toDouble 2 = 2"
  by (rule toDouble_exact [where e = 1 and n = "2 ^ 52"]) (simp_all add: powr_minus field_simps)

lemma toDouble_13_2: "toDouble (13 / 2) = 13 / 2"
  by (rule toDouble_exact [where e = 2 and n = "13 * 2 ^ 49"]) (simp_all add: powr_minus field_simps)

lemma sqrt_9: "sqrt 9 = 3"
  using real_sqrt_abs [of 3] by simp

lemma sqrt_16: "sqrt 16 = 4"
  using real_sqrt_abs [of 4] by simp

text \<open>
  Claim C8. The result of \<open>constrain\<close> can exceed the pixel budget and change the aspect
  ratio. For a 2 x 8 image and a budget of 9 pixels every value that \<open>constrain\<close> computes
  is a double (the ratio is 0.75, the scaled sides are 1.5 and 6). \<open>fastRound\<close> rounds the
  side 1.5 up to 2, and the result 2 x 6 has 12 pixels, more than the budget; its aspect
  ratio 1/3 is not the 1/4 of the input.
\<close>

theorem constrain_exceeds_budget:
  "constrain 2 8 9 = (2, 6)
   \<and> \<not> fst (constrain 2 8 9) * snd (constrain 2 8 9) \<le> 9
   \<and> fst (constrain 2 8 9) / snd (constrain 2 8 9) \<noteq> 2 / 8"
proof -
  have "constrain 2 8 9 = (2, 6)"
    by (simp add: constrain_def fastRound_def toInt32_def Let_def sqrt_9 sqrt_16
          toDouble_16 toDouble_3 toDouble_4 toDouble_3_4 toDouble_3_2 toDouble_6 toDouble_2
          toDouble_13_2)
  then show ?thesis by simp
qed

text \<open>
  The rounding of the doubles shows where a scaled side or the ratio is no double. For a
  15 x 20 image and a budget of 3 pixels the ratio is rounded down to 0.09999999999999998,
  the scaled width to 1.4999999999999996, and \<open>constrain\<close> returns 1 x 2 (on the reals the
  scaled width is 1.5, which \<open>fastRound\<close> takes to 2). For a 1920 x 1080 image and a
  budget of 2000000 pixels it returns 1886 x 1061, which has 2001046 pixels. \<open>fastRound\<close>
  takes 0.49999999999999994, the largest double below 0.5, to 1: the sum with 0.5 is
  rounded to the double 1.
\<close>

lemma roundTiesToEven_near:
  assumes "of_int n - 1 / 2 < v" and "v < of_int n + 1 / 2"
  shows "roundTiesToEven v = n"
proof (cases "of_int n \<le> v")
  case True
  then have "\<lfloor>v\<rfloor> = n" using assms(2) by linarith
  then show ?thesis using assms(2) by (simp add: roundTiesToEven_def)
next
  case False
  then have "\<lfloor>v\<rfloor> = n - 1" using assms(1) by linarith
  then show ?thesis using assms(1) by (simp add: roundTiesToEven_def)
qed

lemma toDouble_at:
  assumes "0 < v" and "2 powr of_int e \<le> v" and "v < 2 powr of_int (e + 1)"
    and "- 1022 \<le> e"
    and "roundTiesToEven (v / 2 powr of_int (e - 52)) = n"
    and "r = of_int n * 2 powr of_int (e - 52)"
  shows "toDouble v = r"
proof -
  have "\<lfloor>log 2 v\<rfloor> = e"
    using assms(1-3) by (subst floor_log_eq_powr_iff) simp_all
  then have e: "max \<lfloor>log 2 \<bar>v\<bar>\<rfloor> (- 1022) = e" using assms(1,4) by simp
  have nz: "v \<noteq> 0" using assms(1) by simp
  have "toDouble v
        = of_int (roundTiesToEven (v / 2 powr of_int (e - 52))) * 2 powr of_int (e - 52)"
    unfolding toDouble_def Let_def e using nz by (simp only: if_False)
  also have "\<dots> = r" by (simp only: assms(5,6))
  finally show ?thesis .
qed

lemma toDouble_near:
  assumes "0 < v" and "2 powr of_int e \<le> v" and "v < 2 powr of_int (e + 1)"
    and "- 1022 \<le> e"
    and "(of_int n - 1 / 2) * 2 powr of_int (e - 52) < v"
    and "v < (of_int n + 1 / 2) * 2 powr of_int (e - 52)"
    and "r = of_int n * 2 powr of_int (e - 52)"
  shows "toDouble v = r"
proof -
  have u: "0 < (2::real) powr of_int (e - 52)" by simp
  have "of_int n - 1 / 2 < v / 2 powr of_int (e - 52)"
    using assms(5) u by (simp add: pos_less_divide_eq)
  moreover have "v / 2 powr of_int (e - 52) < of_int n + 1 / 2"
    using assms(6) u by (simp add: pos_divide_less_eq)
  ultimately have "roundTiesToEven (v / 2 powr of_int (e - 52)) = n"
    by (rule roundTiesToEven_near)
  with assms(1-4) show ?thesis using assms(7) by (rule toDouble_at)
qed

lemma toDouble_300: "toDouble 300 = 300"
  by (rule toDouble_exact [where e = 8 and n = "75 * 2 ^ 46"]) (simp_all add: powr_minus field_simps)

lemma toDouble_sqrt_3: "toDouble (sqrt 3) = 7800463371553962 / 2 ^ 52"
proof (rule toDouble_near [where e = 0 and n = 7800463371553962])
  show "0 < sqrt 3" by simp
  show "2 powr of_int 0 \<le> sqrt 3" by simp
  show "sqrt 3 < 2 powr of_int (0 + 1)" by (simp add: real_less_lsqrt)
  show "- 1022 \<le> (0::int)" by simp
  show "(of_int 7800463371553962 - 1 / 2) * 2 powr of_int (0 - 52) < sqrt 3"
    by (rule real_less_rsqrt) (simp add: powr_minus field_simps power2_eq_square)
  show "sqrt 3 < (of_int 7800463371553962 + 1 / 2) * 2 powr of_int (0 - 52)"
    by (rule real_less_lsqrt) (simp_all add: powr_minus field_simps power2_eq_square)
  show "7800463371553962 / 2 ^ 52 = of_int 7800463371553962 * (2::real) powr of_int (0 - 52)"
    by (simp add: powr_minus field_simps)
qed


lemma toDouble_sqrt_300: "toDouble (sqrt 300) = 4875289607221227 / 2 ^ 48"
proof (rule toDouble_near [where e = 4 and n = 4875289607221227])
  show "0 < sqrt 300" by simp
  show "2 powr of_int 4 \<le> sqrt 300" by (simp add: real_le_rsqrt)
  show "sqrt 300 < 2 powr of_int (4 + 1)" by (simp add: real_less_lsqrt)
  show "- 1022 \<le> (4::int)" by simp
  show "(of_int 4875289607221227 - 1 / 2) * 2 powr of_int (4 - 52) < sqrt 300"
    by (rule real_less_rsqrt) (simp add: powr_minus field_simps power2_eq_square)
  show "sqrt 300 < (of_int 4875289607221227 + 1 / 2) * 2 powr of_int (4 - 52)"
    by (rule real_less_lsqrt) (simp_all add: powr_minus field_simps power2_eq_square)
  show "4875289607221227 / 2 ^ 48 = of_int 4875289607221227 * (2::real) powr of_int (4 - 52)"
    by (simp add: powr_minus field_simps)
qed

lemma ratio_15_20_3:
  "toDouble ((7800463371553962 / 2 ^ 52) / (4875289607221227 / 2 ^ 48))
     = 7205759403792792 / 2 ^ 56"
  by (rule toDouble_near [where e = "- 4" and n = 7205759403792792])
     (simp_all add: powr_minus field_simps)

lemma width_15_20_3: "toDouble (15 * (7205759403792792 / 2 ^ 56)) = 6755399441055742 / 2 ^ 52"
  by (rule toDouble_at [where e = 0 and n = 6755399441055742])
     (simp_all add: roundTiesToEven_def powr_minus)

lemma width_half_15_20_3:
  "toDouble (6755399441055742 / 2 ^ 52 + 1 / 2) = 9007199254740990 / 2 ^ 52"
  by (rule toDouble_near [where e = 0 and n = 9007199254740990])
     (simp_all add: powr_minus field_simps)

lemma height_15_20_3: "toDouble (20 * (7205759403792792 / 2 ^ 56)) = 9007199254740990 / 2 ^ 52"
  by (rule toDouble_near [where e = 0 and n = 9007199254740990])
     (simp_all add: powr_minus field_simps)

lemma height_half_15_20_3:
  "toDouble (9007199254740990 / 2 ^ 52 + 1 / 2) = 5629499534213119 / 2 ^ 51"
  by (rule toDouble_near [where e = 1 and n = 5629499534213119])
     (simp_all add: powr_minus field_simps)

lemma fastRound_pos:
  assumes "0 < v" and "toDouble (v + 1 / 2) = d" and "toInt32 d = k"
  shows "fastRound v = of_int k"
  using assms by (simp add: fastRound_def)

lemma constrain_15_20_3: "constrain 15 20 3 = (1, 2)"
proof -
  have m: "toDouble (15 * 20) = 300" by (simp add: toDouble_300)
  have r: "toDouble (toDouble (sqrt 3) / toDouble (sqrt 300)) = 7205759403792792 / 2 ^ 56"
    by (simp only: toDouble_sqrt_3 toDouble_sqrt_300 ratio_15_20_3)
  have w: "fastRound (toDouble (15 * (7205759403792792 / 2 ^ 56))) = of_int 1"
  proof (rule fastRound_pos)
    show "0 < toDouble (15 * (7205759403792792 / 2 ^ 56))"
      by (simp only: width_15_20_3) simp
    show "toDouble (toDouble (15 * (7205759403792792 / 2 ^ 56)) + 1 / 2)
            = 9007199254740990 / 2 ^ 52"
      by (simp only: width_15_20_3 width_half_15_20_3)
    show "toInt32 (9007199254740990 / 2 ^ 52) = 1" by (simp add: toInt32_def)
  qed
  have h: "fastRound (toDouble (20 * (7205759403792792 / 2 ^ 56))) = of_int 2"
  proof (rule fastRound_pos)
    show "0 < toDouble (20 * (7205759403792792 / 2 ^ 56))"
      by (simp only: height_15_20_3) simp
    show "toDouble (toDouble (20 * (7205759403792792 / 2 ^ 56)) + 1 / 2)
            = 5629499534213119 / 2 ^ 51"
      by (simp only: height_15_20_3 height_half_15_20_3)
    show "toInt32 (5629499534213119 / 2 ^ 51) = 2" by (simp add: toInt32_def)
  qed
  show ?thesis
    unfolding constrain_def Let_def m r w h by simp
qed

lemma fastRound_below_half: "fastRound (1 / 2 - 1 / 2 ^ 54) = 1"
proof -
  have "toDouble (1 / 2 - 1 / 2 ^ 54 + 1 / 2) = 1"
    by (rule toDouble_at [where e = "- 1" and n = "2 ^ 53"])
       (simp_all add: roundTiesToEven_def powr_minus)
  then have "fastRound (1 / 2 - 1 / 2 ^ 54) = of_int 1"
    by (intro fastRound_pos [where d = 1]) (simp_all add: toInt32_def)
  then show ?thesis by simp
qed

lemma toDouble_2073600: "toDouble 2073600 = 2073600"
  by (rule toDouble_exact [where e = 20 and n = "2025 * 2 ^ 42"]) (simp_all add: powr_minus field_simps)

lemma sqrt_2073600: "sqrt 2073600 = 1440"
  using real_sqrt_abs [of 1440] by simp

lemma toDouble_1440: "toDouble 1440 = 1440"
  by (rule toDouble_exact [where e = 10 and n = "45 * 2 ^ 47"]) (simp_all add: powr_minus field_simps)

lemma toDouble_sqrt_2000000: "toDouble (sqrt 2000000) = 6219777023950950 / 2 ^ 42"
proof (rule toDouble_near [where e = 10 and n = 6219777023950950])
  show "0 < sqrt 2000000" by simp
  show "2 powr of_int 10 \<le> sqrt 2000000" by (simp add: real_le_rsqrt)
  show "sqrt 2000000 < 2 powr of_int (10 + 1)" by (simp add: real_less_lsqrt)
  show "- 1022 \<le> (10::int)" by simp
  show "(of_int 6219777023950950 - 1 / 2) * 2 powr of_int (10 - 52) < sqrt 2000000"
    by (rule real_less_rsqrt) (simp add: powr_minus field_simps power2_eq_square)
  show "sqrt 2000000 < (of_int 6219777023950950 + 1 / 2) * 2 powr of_int (10 - 52)"
    by (rule real_less_lsqrt) (simp_all add: powr_minus field_simps power2_eq_square)
  show "6219777023950950 / 2 ^ 42 = of_int 6219777023950950 * (2::real) powr of_int (10 - 52)"
    by (simp add: powr_minus field_simps)
qed

lemma ratio_1920_1080:
  "toDouble ((6219777023950950 / 2 ^ 42) / 1440) = 8845905100730240 / 2 ^ 53"
  by (rule toDouble_at [where e = "- 1" and n = 8845905100730240])
     (simp_all add: roundTiesToEven_def powr_minus)

lemma width_1920_1080:
  "toDouble (1920 * (8845905100730240 / 2 ^ 53)) = 8293036031934600 / 2 ^ 42"
  by (rule toDouble_at [where e = 10 and n = 8293036031934600])
     (simp_all add: roundTiesToEven_def powr_minus)

lemma width_half_1920_1080:
  "toDouble (8293036031934600 / 2 ^ 42 + 1 / 2) = 8295235055190152 / 2 ^ 42"
  by (rule toDouble_at [where e = 10 and n = 8295235055190152])
     (simp_all add: roundTiesToEven_def powr_minus)

lemma height_1920_1080:
  "toDouble (1080 * (8845905100730240 / 2 ^ 53)) = 4664832767963212 / 2 ^ 42"
  by (rule toDouble_at [where e = 10 and n = 4664832767963212])
     (simp_all add: roundTiesToEven_def powr_minus)

lemma height_half_1920_1080:
  "toDouble (4664832767963212 / 2 ^ 42 + 1 / 2) = 4667031791218764 / 2 ^ 42"
  by (rule toDouble_at [where e = 10 and n = 4667031791218764])
     (simp_all add: roundTiesToEven_def powr_minus)

lemma constrain_1920_1080: "constrain 1920 1080 2000000 = (1886, 1061)"
proof -
  have m: "toDouble (1920 * 1080) = 2073600" by (simp add: toDouble_2073600)
  have r: "toDouble (toDouble (sqrt 2000000) / toDouble (sqrt 2073600))
             = 8845905100730240 / 2 ^ 53"
    by (simp only: toDouble_sqrt_2000000 sqrt_2073600 toDouble_1440 ratio_1920_1080)
  have w: "fastRound (toDouble (1920 * (8845905100730240 / 2 ^ 53))) = of_int 1886"
  proof (rule fastRound_pos)
    show "0 < toDouble (1920 * (8845905100730240 / 2 ^ 53))"
      by (simp only: width_1920_1080) simp
    show "toDouble (toDouble (1920 * (8845905100730240 / 2 ^ 53)) + 1 / 2)
            = 8295235055190152 / 2 ^ 42"
      by (simp only: width_1920_1080 width_half_1920_1080)
    show "toInt32 (8295235055190152 / 2 ^ 42) = 1886" by (simp add: toInt32_def)
  qed
  have h: "fastRound (toDouble (1080 * (8845905100730240 / 2 ^ 53))) = of_int 1061"
  proof (rule fastRound_pos)
    show "0 < toDouble (1080 * (8845905100730240 / 2 ^ 53))"
      by (simp only: height_1920_1080) simp
    show "toDouble (toDouble (1080 * (8845905100730240 / 2 ^ 53)) + 1 / 2)
            = 4667031791218764 / 2 ^ 42"
      by (simp only: height_1920_1080 height_half_1920_1080)
    show "toInt32 (4667031791218764 / 2 ^ 42) = 1061" by (simp add: toInt32_def)
  qed
  show ?thesis
    unfolding constrain_def Let_def m r w h by simp
qed


section \<open>Properties of the layer sprite\<close>

subsection \<open>The debounced snapshot commit\<close>

lemma storePaintState_down:
  assumes "pendingPaintState s = Some t" and "0 < t" and "down (brush s)"
  shows "storePaintState s =
           (ReturnsFalse,
            s\<lparr>timers := filter (\<lambda>(i, d). i \<noteq> t) (timers s) @ [(Suc (timerCount s), 1000)],
              timerCount := Suc (timerCount s),
              pendingPaintState := Some (Suc (timerCount s)),
              trace := trace s @ [ClearTimeout t, SetTimeout (Suc (timerCount s)) 1000]\<rparr>)"
  using assms
  by (simp add: storePaintState_def absent_def clearTimeout_def debouncePaintStore_def
        setTimeout_def emit_def Let_def)

lemma storePaintState_up:
  assumes "pendingPaintState s = Some t" and "0 < t" and "\<not> down (brush s)"
  shows "storePaintState s =
           (ReturnsPromise,
            s\<lparr>timers := filter (\<lambda>(i, d). i \<noteq> t) (timers s),
              pendingPaintState := None,
              orgSourceToStore := None,
              jobs := jobs s @ [CommitJob (layer_id (layer s)) (orgSourceToStore s)],
              trace := trace s @ [ClearTimeout t, CanvasToBlob]\<rparr>)"
  using assms
  by (simp add: storePaintState_def absent_def clearTimeout_def emit_def Let_def)

lemma storePaintState_absent:
  "absent (pendingPaintState s) \<Longrightarrow> storePaintState s = (ReturnsTrue, s)"
  by (simp add: storePaintState_def)

lemma preparePendingPaintState_eq:
  "preparePendingPaintState s =
     s\<lparr>timers := timers s @ [(Suc (timerCount s), 5000)],
       timerCount := Suc (timerCount s),
       pendingPaintState := Some (Suc (timerCount s)),
       jobs := jobs s @ [PrepareJob],
       trace := trace s @ [CanvasToBlob, SetTimeout (Suc (timerCount s)) 5000]\<rparr>"
  by (simp add: preparePendingPaintState_def debouncePaintStore_def setTimeout_def emit_def Let_def)

lemma resetInteraction_store_commute:
  "snd (storePaintState (resetInteraction s)) = resetInteraction (snd (storePaintState s))"
  by (simp add: storePaintState_def resetInteraction_def clearTimeout_def debouncePaintStore_def
        setTimeout_def emit_def Let_def)


subsection \<open>One pending timer\<close>

lemma tp_emit [simp]: "tp (emit e s) = tp s"
  by (simp add: tp_def emit_def)

lemma tp_upd [simp]:
  "tp (s\<lparr>tempCanvas := tc\<rparr>) = tp s"
  "tp (s\<lparr>brush := b\<rparr>) = tp s"
  "tp (s\<lparr>trace := tr\<rparr>) = tp s"
  "tp (s\<lparr>rafFx := r\<rparr>) = tp s"
  by (simp_all add: tp_def)

lemma tp_cacheEffects [simp]: "tp (cacheEffects s) = tp s"
  by (simp add: cacheEffects_def)

lemma tp_resetFilterAndRecache [simp]: "tp (resetFilterAndRecache s) = tp s"
  by (simp add: resetFilterAndRecache_def)

lemma tp_paint_clip [simp]: "tp (snd (paint_clip c w h lr a s)) = tp s"
  by (simp add: paint_clip_def Let_def split: option.splits)

lemma tp_paint_action [simp]: "tp (paint_action c a s) = tp s"
  by (simp add: paint_action_def)

lemma tp_paint_fill [simp]: "tp (snd (paint_fill c w h s)) = tp s"
  by (simp add: paint_fill_def Let_def split: option.splits)

lemma tp_paint_brush [simp]: "tp (snd (snd (paint_brush c w h lr er cl sel s))) = tp s"
  unfolding paint_brush_def Let_def
  by (cases cl; cases lr; cases "toolOptions s"; cases sel; cases er; simp)

lemma tp_paint_dispatch [simp]: "tp (snd (snd (paint_dispatch c w h lr a sel s))) = tp s"
  by (simp add: paint_dispatch_def split: option.splits)

lemma tp_paint_restore [simp]: "tp (paint_restore lr sel c s) = tp s"
  by (simp add: paint_restore_def Let_def)

lemma tp_paint_body [simp]: "tp (snd (paint_body a s)) = tp s"
  by (simp add: paint_body_def Let_def split: option.splits)

lemma tp_paint: "tp (snd (paint a s)) = tp (if absent (pendingPaintState s) then preparePendingPaintState s else s)"
  by (simp add: paint_def)


lemma singleTimer_tp: "tp s' = tp s \<Longrightarrow> singleTimer s' = singleTimer s"
  by (simp add: tp_def singleTimer_def)

lemma singleTimer_cases:
  "singleTimer s \<longleftrightarrow>
     timers s = [] \<or> (\<exists>t d. timers s = [(t, d)] \<and> pendingPaintState s = Some t \<and> 0 < t)"
proof (cases "timers s")
  case Nil
  then show ?thesis by (simp add: singleTimer_def)
next
  case (Cons a as)
  then show ?thesis by (cases a; cases as) (auto simp: singleTimer_def)
qed

lemma singleTimer_absent:
  "singleTimer s \<Longrightarrow> absent (pendingPaintState s) \<Longrightarrow> timers s = []"
  by (auto simp: singleTimer_cases absent_def)

lemma singleTimer_debounce:
  "timers s = [] \<Longrightarrow> singleTimer (debouncePaintStore d s)"
  by (simp add: debouncePaintStore_def setTimeout_def emit_def singleTimer_def Let_def)

lemma singleTimer_prepare:
  "singleTimer s \<Longrightarrow> absent (pendingPaintState s) \<Longrightarrow> singleTimer (preparePendingPaintState s)"
  unfolding preparePendingPaintState_def
  by (rule singleTimer_debounce) (simp add: emit_def singleTimer_absent)

lemma singleTimer_paint: "singleTimer s \<Longrightarrow> singleTimer (snd (paint a s))"
  using singleTimer_tp [OF tp_paint, of a s] by (simp add: singleTimer_prepare)

lemma timers_clearPending:
  "singleTimer s \<Longrightarrow> pendingPaintState s = Some t \<Longrightarrow> filter (\<lambda>(i, d). i \<noteq> t) (timers s) = []"
  by (auto simp: singleTimer_cases)

lemma singleTimer_store: "singleTimer s \<Longrightarrow> singleTimer (snd (storePaintState s))"
proof (cases "pendingPaintState s")
  case None
  then show "singleTimer s \<Longrightarrow> ?thesis" by (simp add: storePaintState_def absent_def)
next
  case (Some t)
  assume inv: "singleTimer s"
  have cl: "timers (clearTimeout t s) = []"
    using timers_clearPending [OF inv Some] by (simp add: clearTimeout_def emit_def)
  show ?thesis
  proof (cases "absent (pendingPaintState s)")
    case True
    then show ?thesis using inv by (simp add: storePaintState_def)
  next
    case False
    show ?thesis
    proof (cases "down (brush s)")
      case True
      then show ?thesis
        using False Some singleTimer_debounce [OF cl, of 1000]
        by (simp add: storePaintState_def Let_def clearTimeout_def emit_def)
    next
      case down: False
      then show ?thesis
        using False Some cl
        by (simp add: storePaintState_def Let_def clearTimeout_def emit_def singleTimer_def)
    qed
  qed
qed

lemma singleTimer_fire: "singleTimer s \<Longrightarrow> singleTimer (fireTimer t s)"
proof -
  assume inv: "singleTimer s"
  show ?thesis
  proof (cases "t \<in> fst ` set (timers s)")
    case False
    then show ?thesis using inv by (simp add: fireTimer_def)
  next
    case True
    have "length (filter (\<lambda>(i, d). i \<noteq> t) (timers s)) \<le> 1"
      using inv length_filter_le [of "\<lambda>(i, d). i \<noteq> t" "timers s"]
      unfolding singleTimer_def by linarith
    moreover have "list_all (\<lambda>(t, d). pendingPaintState s = Some t \<and> 0 < t)
                     (filter (\<lambda>(i, d). i \<noteq> t) (timers s))"
      using inv by (auto simp: singleTimer_def list_all_iff)
    ultimately have "singleTimer (s\<lparr>timers := filter (\<lambda>(i, d). i \<noteq> t) (timers s)\<rparr>)"
      by (simp add: singleTimer_def)
    then show ?thesis using True by (simp add: fireTimer_def singleTimer_store)
  qed
qed

lemma tp_resetInteraction [simp]: "tp (resetInteraction s) = tp s"
  by (simp add: tp_def resetInteraction_def)

lemma tp_activateTool [simp]: "tp (activateTool tool opts doc s) = tp s"
  by (simp add: tp_def activateTool_def Let_def emit_def setDraggable_def setSelection_def
        cacheBrush_def forceMoveListener_def)

lemma singleTimer_handleActiveTool:
  "singleTimer s \<Longrightarrow> singleTimer (handleActiveTool tool opts doc s)"
proof -
  assume "singleTimer s"
  then have "singleTimer (resetInteraction s)"
    using singleTimer_tp [OF tp_resetInteraction] by simp
  then have "singleTimer (snd (storePaintState (resetInteraction s)))"
    by (rule singleTimer_store)
  then show ?thesis
    unfolding handleActiveTool_def using singleTimer_tp [OF tp_activateTool] by simp
qed

lemma tp_storeBrushPointer [simp]: "tp (storeBrushPointer px py s) = tp s"
  by (simp add: storeBrushPointer_def)

lemma tp_releaseMode [simp]: "tp (releaseMode s) = tp s"
  by (simp add: tp_def releaseMode_def forceMoveListener_def snapSpriteToGuide_def
        setBounds_def Let_def emit_def split: option.splits)

lemma singleTimer_handlePress: "singleTimer s \<Longrightarrow> singleTimer (snd (handlePress px py ty s))"
proof -
  assume inv: "singleTimer s"
  define s1 where "s1 = (if startsWithTouch ty then s\<lparr>pointerX := px, pointerY := py\<rparr> else s)"
  have i1: "singleTimer s1" using inv by (simp add: s1_def singleTimer_def)
  have "singleTimer (snd (paint None s1))" using i1 by (rule singleTimer_paint)
  moreover have "\<And>s'. tp s' = tp s1 \<Longrightarrow> singleTimer s'" using i1 singleTimer_tp by blast
  ultimately show ?thesis
    unfolding handlePress_def s1_def [symmetric] Let_def
    by (auto simp: tp_def emit_def storeBrushPointer_def split: option.splits)
qed

lemma tp_moveMask [simp]: "tp (moveMask px py s) = tp s"
  by (simp add: moveMask_def Let_def tp_def emit_def resetFilterAndRecache_def cacheEffects_def)

lemma tp_moveBrush [simp]: "tp (moveBrush px py s) = tp s"
  by (simp add: moveBrush_def)

lemma tp_handleMove [simp]: "tp (handleMove px py ty s) = tp s"
proof -
  have "tp (if \<not> startsWithTouch ty then s\<lparr>pointerX := px, pointerY := py\<rparr> else s) = tp s"
    by (simp add: tp_def)
  then show ?thesis by (simp add: handleMove_def Let_def)
qed

lemma singleTimer_update: "singleTimer s \<Longrightarrow> singleTimer (snd (update s))"
proof -
  assume inv: "singleTimer s"
  have "singleTimer (snd (paint None s))" using inv by (rule singleTimer_paint)
  then show ?thesis
    using inv by (cases "paint None s") (auto simp: update_def singleTimer_def split: option.splits)
qed

lemma singleTimer_handleRelease: "singleTimer s \<Longrightarrow> singleTimer (snd (handleRelease px py s))"
proof (cases "down (brush s)")
  case False
  assume "singleTimer s"
  then show ?thesis using False singleTimer_tp [OF tp_releaseMode, of s] by (simp add: handleRelease_def)
next
  case True
  assume inv: "singleTimer s"
  define s2 where "s2 = (emit DisposeTempCanvas s)\<lparr>tempCanvas := None\<rparr>
          \<lparr>brush := (brush ((emit DisposeTempCanvas s)\<lparr>tempCanvas := None\<rparr>))\<lparr>down := False, last_idx := 0\<rparr>\<rparr>"
  have "tp s2 = tp s" by (simp add: s2_def)
  then have "singleTimer s2" using inv singleTimer_tp by blast
  then have p: "singleTimer (snd (paint None s2))" by (rule singleTimer_paint)
  obtain e s3 where ps: "paint None s2 = (e, s3)" by (cases "paint None s2")
  have i3: "singleTimer s3" using p ps by simp
  define s4 where "s4 = s3\<lparr>brush := (brush s3)\<lparr>pointers := []\<rparr>\<rparr>"
  have i4: "singleTimer s4" using i3 singleTimer_tp [of s4 s3] by (simp add: s4_def)
  have i5: "singleTimer (if \<not> lowMemory (store s4) then snd (storePaintState s4) else s4)"
    using i4 singleTimer_store by simp
  have "snd (handleRelease px py s) =
     (case e of Some x \<Rightarrow> s3 | None \<Rightarrow> releaseMode (if \<not> lowMemory (store s4) then snd (storePaintState s4) else s4))"
    using True ps by (simp add: handleRelease_def Let_def s2_def s4_def split: option.splits)
  then show ?thesis
    using i3 i5 singleTimer_tp [OF tp_releaseMode] by (cases e) simp_all
qed

lemma singleTimer_resolveJob: "singleTimer s \<Longrightarrow> singleTimer (resolveJob n s)"
  by (auto simp: resolveJob_def Let_def singleTimer_def emit_def split: job.splits)

lemma singleTimer_step: "singleTimer s \<Longrightarrow> singleTimer (step c s)"
proof (cases c)
  case (HandleMove px py ty)
  assume "singleTimer s"
  then show ?thesis using HandleMove singleTimer_tp [OF tp_handleMove] by simp
qed (simp_all add: singleTimer_paint singleTimer_store singleTimer_fire singleTimer_update
       singleTimer_handleRelease singleTimer_handlePress singleTimer_handleActiveTool
       singleTimer_resolveJob, simp_all add: singleTimer_def emit_def)

lemma singleTimer_run: "singleTimer s \<Longrightarrow> singleTimer (run cs s)"
  by (induction cs arbitrary: s) (simp_all add: singleTimer_step)

lemma singleTimer_LayerSprite: "singleTimer (LayerSprite l st b scl px)"
  by (simp add: LayerSprite_def cacheEffects_def emit_def singleTimer_def)

lemma singleTimer_length: "singleTimer s \<Longrightarrow> length (timers s) \<le> 1"
  by (simp add: singleTimer_def)


subsection \<open>What a paint changes\<close>

lemma rest_fields:
  assumes "rest s' = rest s"
  shows "layer s' = layer s" and "store s' = store s" and "down (brush s') = down (brush s)"
    and "last_idx (brush s') = last_idx (brush s)" and "options (brush s') = options (brush s)"
    and "timers s' = timers s" and "pendingPaintState s' = pendingPaintState s"
    and "timerCount s' = timerCount s" and "jobs s' = jobs s"
    and "orgSourceToStore s' = orgSourceToStore s" and "resourceCount s' = resourceCount s"
    and "toolType s' = toolType s" and "toolOptions s' = toolOptions s"
    and "isPaintMode s' = isPaintMode s" and "isDragMode s' = isDragMode s"
    and "cloneStartCoords s' = cloneStartCoords s" and "selection s' = selection s"
proof -
  have "layer (rest s') = layer (rest s)" using assms by simp
  then show "layer s' = layer s" by (simp add: rest_def)
  have "store (rest s') = store (rest s)" using assms by simp
  then show "store s' = store s" by (simp add: rest_def)
  have b: "brush (rest s') = brush (rest s)" using assms by simp
  then have "down (brush (rest s')) = down (brush (rest s))" by simp
  then show "down (brush s') = down (brush s)" by (simp add: rest_def)
  from b have "last_idx (brush (rest s')) = last_idx (brush (rest s))" by simp
  then show "last_idx (brush s') = last_idx (brush s)" by (simp add: rest_def)
  from b have "options (brush (rest s')) = options (brush (rest s))" by simp
  then show "options (brush s') = options (brush s)" by (simp add: rest_def)
  have "timers (rest s') = timers (rest s)" using assms by simp
  then show "timers s' = timers s" by (simp add: rest_def)
  have "pendingPaintState (rest s') = pendingPaintState (rest s)" using assms by simp
  then show "pendingPaintState s' = pendingPaintState s" by (simp add: rest_def)
  have "timerCount (rest s') = timerCount (rest s)" using assms by simp
  then show "timerCount s' = timerCount s" by (simp add: rest_def)
  have "jobs (rest s') = jobs (rest s)" using assms by simp
  then show "jobs s' = jobs s" by (simp add: rest_def)
  have "orgSourceToStore (rest s') = orgSourceToStore (rest s)" using assms by simp
  then show "orgSourceToStore s' = orgSourceToStore s" by (simp add: rest_def)
  have "resourceCount (rest s') = resourceCount (rest s)" using assms by simp
  then show "resourceCount s' = resourceCount s" by (simp add: rest_def)
  have "toolType (rest s') = toolType (rest s)" using assms by simp
  then show "toolType s' = toolType s" by (simp add: rest_def)
  have "toolOptions (rest s') = toolOptions (rest s)" using assms by simp
  then show "toolOptions s' = toolOptions s" by (simp add: rest_def)
  have "isPaintMode (rest s') = isPaintMode (rest s)" using assms by simp
  then show "isPaintMode s' = isPaintMode s" by (simp add: rest_def)
  have "isDragMode (rest s') = isDragMode (rest s)" using assms by simp
  then show "isDragMode s' = isDragMode s" by (simp add: rest_def)
  have "cloneStartCoords (rest s') = cloneStartCoords (rest s)" using assms by simp
  then show "cloneStartCoords s' = cloneStartCoords s" by (simp add: rest_def)
  have "selection (rest s') = selection (rest s)" using assms by simp
  then show "selection s' = selection s" by (simp add: rest_def)
qed

lemma paintStep_refl [simp]: "paintStep s s"
  by (simp add: paintStep_def)

lemma paintStep_trans: "paintStep s s1 \<Longrightarrow> paintStep s1 s2 \<Longrightarrow> paintStep s s2"
proof -
  assume a: "paintStep s s1" and b: "paintStep s1 s2"
  have d: "down (brush s1) = down (brush s)"
    using a rest_fields(3) [of s1 s] by (simp add: paintStep_def)
  have "rest s2 = rest s" using a b by (simp add: paintStep_def)
  moreover have "prefix (trace s) (trace s2)"
    using a b by (auto simp: paintStep_def intro: prefix_order.trans)
  moreover have "paintCount (trace s2) = paintCount (trace s)"
    using a b by (simp add: paintStep_def)
  moreover have "length (pointers (brush s2)) = length (pointers (brush s))"
    using a b by (simp add: paintStep_def)
  moreover have "down (brush s) \<or> tempCanvas s2 = tempCanvas s"
    using a b d by (auto simp: paintStep_def)
  ultimately show ?thesis unfolding paintStep_def by blast
qed

lemma paintStep_emit: "\<not> isGetContext e \<Longrightarrow> paintStep s (emit e s)"
  by (simp add: paintStep_def rest_def emit_def paintCount_def)

lemma paintStep_cacheEffects: "paintStep s (cacheEffects s)"
  by (simp add: paintStep_def rest_def cacheEffects_def emit_def paintCount_def)

lemma paintStep_resetFilterAndRecache: "paintStep s (resetFilterAndRecache s)"
  unfolding resetFilterAndRecache_def
  by (rule paintStep_trans [OF paintStep_emit paintStep_cacheEffects]) simp

lemma paintStep_emit2:
  "\<not> isGetContext e1 \<Longrightarrow> \<not> isGetContext e2 \<Longrightarrow> paintStep s (emit e2 (emit e1 s))"
  by (rule paintStep_trans [OF paintStep_emit paintStep_emit])

lemma paintStep_paint_clip: "paintStep s (snd (paint_clip c w h lr a s))"
  unfolding paint_clip_def Let_def
  by (simp split: option.splits add: paintStep_emit2)

lemma paintStep_paint_action: "paintStep s (paint_action c a s)"
  by (simp add: paint_action_def Let_def paintStep_def rest_def emit_def paintCount_def)

lemma paintStep_paint_fill: "paintStep s (snd (paint_fill c w h s))"
  by (simp add: paint_fill_def Let_def paintStep_def rest_def emit_def paintCount_def split: option.splits)


lemma paintStep_paint_brush:
  "lr \<longrightarrow> down (brush s) \<Longrightarrow> paintStep s (snd (snd (paint_brush c w h lr er cl sel s)))"
  unfolding paint_brush_def Let_def
  by (cases cl; cases lr; cases "toolOptions s"; cases sel; cases er; cases "tempCanvas s")
     (simp_all add: paintStep_def rest_def emit_def paintCount_def rotatePointerLists_def)

lemma paintStep_paint_dispatch:
  "lr \<longrightarrow> down (brush s) \<Longrightarrow> paintStep s (snd (snd (paint_dispatch c w h lr a sel s)))"
  by (simp add: paint_dispatch_def paintStep_paint_action paintStep_paint_fill
        paintStep_paint_brush split: option.splits)

lemma paintStep_paint_restore: "paintStep s (paint_restore lr sel c s)"
  unfolding paint_restore_def Let_def
  by (auto intro!: paintStep_emit paintStep_emit2
        paintStep_trans [OF paintStep_emit paintStep_resetFilterAndRecache]
        paintStep_trans [OF paintStep_emit2 paintStep_resetFilterAndRecache])

lemma paint_body_start:
  "snd (paint_body a s) =
     (let ctx = drawingContext s;
          width = cvs_width (drawingCanvas s);
          height = cvs_height (drawingCanvas s);
          s1 = emit (CtxSave ctx) (emit (GetContext ctx) s);
          lowRes = isLowResPreview s1;
          clip = paint_clip ctx width height lowRes a s1;
          r = paint_dispatch ctx width height lowRes a (fst clip) (snd clip)
      in case fst r of
           Some e \<Rightarrow> snd (snd r)
         | None \<Rightarrow> paint_restore lowRes (fst clip) (fst (snd r)) (snd (snd r)))"
  by (simp add: paint_body_def Let_def split: option.splits)

lemma paint_body_paintStep:
  "paintStep (emit (CtxSave (drawingContext s)) (emit (GetContext (drawingContext s)) s))
     (snd (paint_body a s))"
proof -
  define ctx where "ctx = drawingContext s"
  define width where "width = cvs_width (drawingCanvas s)"
  define height where "height = cvs_height (drawingCanvas s)"
  define s1 where "s1 = emit (CtxSave ctx) (emit (GetContext ctx) s)"
  define lowRes where "lowRes = isLowResPreview s1"
  define clip where "clip = paint_clip ctx width height lowRes a s1"
  define r where "r = paint_dispatch ctx width height lowRes a (fst clip) (snd clip)"
  have p1: "paintStep s1 (snd clip)"
    unfolding clip_def by (rule paintStep_paint_clip)
  then have "down (brush (snd clip)) = down (brush s1)"
    using rest_fields(3) [of "snd clip" s1] by (simp add: paintStep_def)
  then have d: "lowRes \<longrightarrow> down (brush (snd clip))"
    by (simp add: lowRes_def isLowResPreview_def)
  have p2: "paintStep (snd clip) (snd (snd r))"
    unfolding r_def using d by (rule paintStep_paint_dispatch)
  have p3: "paintStep (snd (snd r)) (paint_restore lowRes (fst clip) (fst (snd r)) (snd (snd r)))"
    by (rule paintStep_paint_restore)
  have res: "snd (paint_body a s) =
      (case fst r of Some e \<Rightarrow> snd (snd r)
       | None \<Rightarrow> paint_restore lowRes (fst clip) (fst (snd r)) (snd (snd r)))"
    unfolding paint_body_start Let_def r_def clip_def lowRes_def s1_def height_def width_def ctx_def ..
  have "paintStep s1 (snd (paint_body a s))"
    unfolding res using paintStep_trans [OF p1 p2] paintStep_trans [OF paintStep_trans [OF p1 p2] p3]
    by (cases "fst r") simp_all
  then show ?thesis by (simp add: s1_def ctx_def)
qed

lemma paint_body_frame:
  "rest (snd (paint_body a s)) = rest s"
  "prefix (trace s) (trace (snd (paint_body a s)))"
  "paintCount (trace (snd (paint_body a s))) = Suc (paintCount (trace s))"
  "length (pointers (brush (snd (paint_body a s)))) = length (pointers (brush s))"
  "down (brush s) \<or> tempCanvas (snd (paint_body a s)) = tempCanvas s"
proof -
  define s1 where "s1 = emit (CtxSave (drawingContext s)) (emit (GetContext (drawingContext s)) s)"
  have p: "paintStep s1 (snd (paint_body a s))"
    unfolding s1_def by (rule paint_body_paintStep)
  have r1: "rest s1 = rest s" by (simp add: s1_def emit_def rest_def)
  have t1: "prefix (trace s) (trace s1)" by (simp add: s1_def emit_def)
  have c1: "paintCount (trace s1) = Suc (paintCount (trace s))"
    by (simp add: s1_def emit_def paintCount_def)
  have b1: "brush s1 = brush s" and tc1: "tempCanvas s1 = tempCanvas s"
    by (simp_all add: s1_def emit_def)
  show "rest (snd (paint_body a s)) = rest s" using p r1 by (simp add: paintStep_def)
  show "prefix (trace s) (trace (snd (paint_body a s)))"
    using p t1 by (auto simp: paintStep_def intro: prefix_order.trans)
  show "paintCount (trace (snd (paint_body a s))) = Suc (paintCount (trace s))"
    using p c1 by (simp add: paintStep_def)
  show "length (pointers (brush (snd (paint_body a s)))) = length (pointers (brush s))"
    using p b1 by (simp add: paintStep_def)
  show "down (brush s) \<or> tempCanvas (snd (paint_body a s)) = tempCanvas s"
    using p b1 tc1 by (auto simp: paintStep_def)
qed


lemma paint_clip_same:
  "brush (snd (paint_clip c w h lr a s)) = brush s"
  "layer (snd (paint_clip c w h lr a s)) = layer s"
  "toolType (snd (paint_clip c w h lr a s)) = toolType s"
  "toolOptions (snd (paint_clip c w h lr a s)) = toolOptions s"
  by (simp_all add: paint_clip_def Let_def emit_def split: option.splits)

lemma paint_dispatch_returns:
  assumes "toolOptions s \<noteq> None \<or> (toolType s \<noteq> Some FILL \<and> (toolType s \<noteq> Some CLONE \<or> \<not> lr))"
  shows "fst (paint_dispatch c w h lr a sel s) = None"
  using assms
  by (auto simp: paint_dispatch_def paint_fill_def paint_brush_def Let_def split: option.splits)

lemma paint_body_returns:
  assumes "toolOptions s \<noteq> None
           \<or> (toolType s \<noteq> Some FILL \<and> (toolType s \<noteq> Some CLONE \<or> \<not> down (brush s)))"
  shows "fst (paint_body a s) = None"
proof -
  define ctx where "ctx = drawingContext s"
  define s1 where "s1 = emit (CtxSave ctx) (emit (GetContext ctx) s)"
  define lowRes where "lowRes = isLowResPreview s1"
  define clip where "clip = paint_clip ctx (cvs_width (drawingCanvas s)) (cvs_height (drawingCanvas s)) lowRes a s1"
  define r where "r = paint_dispatch ctx (cvs_width (drawingCanvas s)) (cvs_height (drawingCanvas s)) lowRes a (fst clip) (snd clip)"
  have lr: "lowRes \<longrightarrow> down (brush s)"
    by (simp add: lowRes_def isLowResPreview_def s1_def emit_def)
  have "toolOptions (snd clip) = toolOptions s" and "toolType (snd clip) = toolType s"
    by (simp_all add: clip_def paint_clip_same s1_def emit_def)
  then have "fst r = None"
    unfolding r_def using assms lr by (intro paint_dispatch_returns) auto
  moreover have "fst (paint_body a s) = fst r"
    unfolding paint_body_def Let_def r_def clip_def lowRes_def s1_def ctx_def
    by (simp split: option.splits)
  ultimately show ?thesis by simp
qed

lemma prepare_same:
  "brush (preparePendingPaintState s) = brush s"
  "toolType (preparePendingPaintState s) = toolType s"
  "toolOptions (preparePendingPaintState s) = toolOptions s"
  "tempCanvas (preparePendingPaintState s) = tempCanvas s"
  "layer (preparePendingPaintState s) = layer s"
  "store (preparePendingPaintState s) = store s"
  "orgSourceToStore (preparePendingPaintState s) = orgSourceToStore s"
  "paintCount (trace (preparePendingPaintState s)) = paintCount (trace s)"
  "prefix (trace s) (trace (preparePendingPaintState s))"
  "\<not> absent (pendingPaintState (preparePendingPaintState s))"
  by (simp_all add: preparePendingPaintState_def debouncePaintStore_def setTimeout_def emit_def
        Let_def paintCount_def absent_def)

lemma paint_returns:
  assumes "toolOptions s \<noteq> None
           \<or> (toolType s \<noteq> Some FILL \<and> (toolType s \<noteq> Some CLONE \<or> \<not> down (brush s)))"
  shows "fst (paint a s) = None"
  unfolding paint_def using assms by (intro paint_body_returns) (simp add: prepare_same)

lemma paint_frame:
  "brush (snd (paint a s)) = (brush s)\<lparr>pointers := pointers (brush (snd (paint a s)))\<rparr>"
  "length (pointers (brush (snd (paint a s)))) = length (pointers (brush s))"
  "paintCount (trace (snd (paint a s))) = Suc (paintCount (trace s))"
  "prefix (trace s) (trace (snd (paint a s)))"
  "\<not> absent (pendingPaintState (snd (paint a s)))"
  "layer (snd (paint a s)) = layer s"
  "store (snd (paint a s)) = store s"
  "orgSourceToStore (snd (paint a s)) = orgSourceToStore s"
  "down (brush s) \<or> tempCanvas (snd (paint a s)) = tempCanvas s"
  "isPaintMode (snd (paint a s)) = isPaintMode s"
  "isDragMode (snd (paint a s)) = isDragMode s"
proof -
  define s0 where "s0 = (if absent (pendingPaintState s) then preparePendingPaintState s else s)"
  have p: "paint a s = paint_body a s0" by (simp add: paint_def s0_def)
  have r: "rest (snd (paint_body a s0)) = rest s0" by (rule paint_body_frame)
  note f = rest_fields [OF r]
  have b0: "brush s0 = brush s" by (simp add: s0_def prepare_same)
  have "brush (rest (snd (paint_body a s0))) = brush (rest s0)" using r by simp
  then have "(brush (snd (paint_body a s0)))\<lparr>pointers := []\<rparr> = (brush s0)\<lparr>pointers := []\<rparr>"
    by (simp add: rest_def)
  then have "(brush (snd (paint_body a s0)))\<lparr>pointers := [], pointers := pointers (brush (snd (paint_body a s0)))\<rparr>
     = (brush s0)\<lparr>pointers := [], pointers := pointers (brush (snd (paint_body a s0)))\<rparr>"
    by simp
  then show "brush (snd (paint a s)) = (brush s)\<lparr>pointers := pointers (brush (snd (paint a s)))\<rparr>"
    by (simp add: p b0)
  show "length (pointers (brush (snd (paint a s)))) = length (pointers (brush s))"
    using paint_body_frame(4) [where s = s0 and a = a] by (simp add: p b0)
  show "paintCount (trace (snd (paint a s))) = Suc (paintCount (trace s))"
    using paint_body_frame(3) [where s = s0 and a = a] by (simp add: p s0_def prepare_same)
  show "prefix (trace s) (trace (snd (paint a s)))"
    using paint_body_frame(2) [where s = s0 and a = a] prepare_same(9) [of s]
    by (auto simp: p s0_def intro: prefix_order.trans)
  show "\<not> absent (pendingPaintState (snd (paint a s)))"
    using f(7) by (simp add: p s0_def prepare_same)
  show "layer (snd (paint a s)) = layer s" using f(1) by (simp add: p s0_def prepare_same)
  show "store (snd (paint a s)) = store s" using f(2) by (simp add: p s0_def prepare_same)
  show "orgSourceToStore (snd (paint a s)) = orgSourceToStore s"
    using f(10) by (simp add: p s0_def prepare_same)
  show "down (brush s) \<or> tempCanvas (snd (paint a s)) = tempCanvas s"
  proof -
    have "tempCanvas s0 = tempCanvas s" by (simp add: s0_def prepare_same)
    then show ?thesis
      using paint_body_frame(5) [where s = s0 and a = a] by (simp add: p b0)
  qed
  have m: "isPaintMode s0 = isPaintMode s" "isDragMode s0 = isDragMode s"
    by (simp_all add: s0_def preparePendingPaintState_def debouncePaintStore_def setTimeout_def emit_def Let_def)
  show "isPaintMode (snd (paint a s)) = isPaintMode s" using f(14) by (simp add: p m)
  show "isDragMode (snd (paint a s)) = isDragMode s" using f(15) by (simp add: p m)
qed



subsection \<open>The example sprites, evaluated\<close>

lemmas ex_defs = exLayer_def exStore_def exOptions_def exDocument_def exSprite_def exStroke_def
  exFilled_def exPressed_def exSelection_def exPressedSelected_def exSwitched_def exClone_def
  exDragging_def exGuided_def exCloneStroke_def

lemmas sprite_defs = emit_def setTimeout_def clearTimeout_def absent_def
  BrushFactory_create_def slicePointers_def isSelectionClosed_def isMaskable_def jsRem_def
  isRotated_def cacheBrush_def storeBrushPointer_def cacheEffects_def resetFilterAndRecache_def
  setSelection_def forceMoveListener_def rotatePointerLists_def rotatePointer_def
  translatePointerRotation_def debouncePaintStore_def preparePendingPaintState_def
  storePaintState_def resolveJob_def fireTimer_def paint_clip_def paint_action_def
  paint_fill_def paint_brush_def drawingContext_def drawingCanvas_def isLowResPreview_def
  paint_dispatch_def paint_restore_def paint_body_def paint_def setDraggable_def
  resetInteraction_def activateTool_def handleActiveTool_def startsWithTouch_def
  handlePress_def moveMask_def moveBrush_def handleMove_def setBounds_def
  snapSpriteToGuide_def releaseMode_def handleRelease_def
  update_def LayerSprite_def Let_def

lemma exSprite_fields:
  "pendingPaintState exSprite = None" "timers exSprite = []" "timerCount exSprite = 0"
  "\<not> down (brush exSprite)" "jobs exSprite = []"
  by (simp_all add: ex_defs sprite_defs)

lemma exStroke_fields:
  "pendingPaintState exStroke = Some 1" "timers exStroke = [(1, 5000)]" "timerCount exStroke = 1"
  "down (brush exStroke)" "jobs exStroke = [PrepareJob]" "isPaintMode exStroke"
  "pointers (brush exStroke) = [(10, 10), (20, 10)]" "last_idx (brush exStroke) = 2"
  "toolType exStroke = Some BRUSH" "toolOptions exStroke = Some exOptions"
  "layer exStroke = exLayer" "store exStroke = exStore" "orgSourceToStore exStroke = None"
  "resourceCount exStroke = 0" "tempCanvas exStroke = Some TempCanvas"
  "trace exStroke =
     [SetLock True, RequestAnimationFrame, Invalidate, CanvasToBlob, SetTimeout 1 5000,
      GetContext LayerSource, CtxSave LayerSource, GetTempCanvas,
      CreateOverrideConfig [(10, 10), (20, 10)],
      RenderBrushStroke TempCtx
        \<lparr>color = ''red'', radius = 5, pointers = [(10, 10), (20, 10)], down = True,
         last_idx = 0, options = exOptions\<rparr> True,
      CtxRestore TempCtx]"
  by (simp_all add: ex_defs sprite_defs)

lemma exFilled_fields:
  "pendingPaintState exFilled = Some 1" "timers exFilled = [(1, 5000)]" "timerCount exFilled = 1"
  "\<not> down (brush exFilled)" "jobs exFilled = [PrepareJob]" "isPaintMode exFilled"
  "layer exFilled = exLayer" "orgSourceToStore exFilled = None" "resourceCount exFilled = 0"
  "trace exFilled =
     [SetLock True, RequestAnimationFrame, Invalidate, CanvasToBlob, SetTimeout 1 5000,
      GetContext LayerSource, CtxSave LayerSource, CtxSet LayerSource ''fillStyle'' (JStr ''red''),
      CtxFillRect LayerSource 0 0 100 100, CtxRestore LayerSource,
      ClearCacheProperty ''filterData'']"
  by (simp_all add: ex_defs sprite_defs)



section \<open>The claims about the layer sprite\<close>

subsection \<open>One pending timer (C5)\<close>

lemma paint_arms:
  "absent (pendingPaintState s) \<Longrightarrow>
     pendingPaintState (snd (paint a s)) = Some (Suc (timerCount s))
     \<and> timers (snd (paint a s)) = timers s @ [(Suc (timerCount s), 5000)]"
  using tp_paint [of a s] by (simp add: tp_def preparePendingPaintState_eq)

lemma paint_keeps_timer:
  "\<not> absent (pendingPaintState s) \<Longrightarrow>
     pendingPaintState (snd (paint a s)) = pendingPaintState s
     \<and> timers (snd (paint a s)) = timers s"
  using tp_paint [of a s] by (simp add: tp_def)

text \<open>
  Claim C5. Whatever calls and callbacks a sprite has gone through since its construction
  (tool activations, pointer events, frame updates, paints, calls of \<open>storePaintState\<close>,
  timers firing, promises resolving), at most one timer of the debounced snapshot commit
  is armed, and it is the one that \<open>_pendingPaintState\<close> holds. In such a state \<open>paint\<close>
  arms a timer (of 5 seconds) only when \<open>_pendingPaintState\<close> is absent and leaves the
  timers alone otherwise, and \<open>storePaintState\<close> leaves either no timer or exactly one,
  the one it re-armed (of 1 second). \<open>preparePendingPaintState\<close> and
  \<open>debouncePaintStore\<close> run as part of \<open>paint\<close> and \<open>storePaintState\<close>, their only callers.
\<close>

theorem single_pending_timer:
  "length (timers (run cs (LayerSprite l st b scl px))) \<le> 1
   \<and> list_all (\<lambda>(t, d). pendingPaintState (run cs (LayerSprite l st b scl px)) = Some t)
        (timers (run cs (LayerSprite l st b scl px)))
   \<and> timers (snd (paint a (run cs (LayerSprite l st b scl px)))) =
       (if absent (pendingPaintState (run cs (LayerSprite l st b scl px)))
        then [(Suc (timerCount (run cs (LayerSprite l st b scl px))), 5000)]
        else timers (run cs (LayerSprite l st b scl px)))
   \<and> timers (snd (storePaintState (run cs (LayerSprite l st b scl px)))) =
       (if \<not> absent (pendingPaintState (run cs (LayerSprite l st b scl px)))
           \<and> down (brush (run cs (LayerSprite l st b scl px)))
        then [(Suc (timerCount (run cs (LayerSprite l st b scl px))), 1000)]
        else [])"
proof -
  define s where "s = run cs (LayerSprite l st b scl px)"
  have inv: "singleTimer s"
    unfolding s_def by (rule singleTimer_run [OF singleTimer_LayerSprite])
  have a: "length (timers s) \<le> 1" using inv by (rule singleTimer_length)
  have b: "list_all (\<lambda>(t, d). pendingPaintState s = Some t) (timers s)"
    using inv by (auto simp: singleTimer_def list_all_iff)
  have c: "timers (snd (paint a s)) =
       (if absent (pendingPaintState s) then [(Suc (timerCount s), 5000)] else timers s)"
    using paint_arms [of s a] paint_keeps_timer [of s a] singleTimer_absent [OF inv] by simp
  have d: "timers (snd (storePaintState s)) =
       (if \<not> absent (pendingPaintState s) \<and> down (brush s)
        then [(Suc (timerCount s), 1000)] else [])"
  proof (cases "absent (pendingPaintState s)")
    case True
    then show ?thesis using singleTimer_absent [OF inv] by (simp add: storePaintState_absent)
  next
    case False
    then obtain t where t: "pendingPaintState s = Some t" "0 < t"
      by (cases "pendingPaintState s") (auto simp: absent_def)
    have f: "filter (\<lambda>(i, d). i \<noteq> t) (timers s) = []"
      using inv t(1) by (rule timers_clearPending)
    show ?thesis
      using False f storePaintState_down [OF t] storePaintState_up [OF t]
      by (cases "down (brush s)") simp_all
  qed
  show ?thesis using a b c d unfolding s_def by blast
qed

theorem single_pending_timer_witness:
  "timers exStroke = [(1, 5000)]
   \<and> timers (snd (paint None exStroke)) = [(1, 5000)]
   \<and> timers (snd (storePaintState exStroke)) = [(2, 1000)]"
proof -
  have e: "run [HandleActiveLayer ''L1'', HandleActiveTool (Some BRUSH) exOptions exDocument,
                HandlePress 10 10 ''mousedown'', HandleMove 20 10 ''mousemove'', Update]
             (LayerSprite exLayer exStore (BrushFactory_create ''red'' 5 [] exOptions) 1
                (\<lambda>p. ''rgba(0,0,0,0)'')) = exStroke"
    by (simp add: exStroke_def exSprite_def)
  show ?thesis
    using single_pending_timer
          [of "[HandleActiveLayer ''L1'', HandleActiveTool (Some BRUSH) exOptions exDocument,
                HandlePress 10 10 ''mousedown'', HandleMove 20 10 ''mousemove'', Update]"
              exLayer exStore "BrushFactory_create ''red'' 5 [] exOptions" 1
              "\<lambda>p. ''rgba(0,0,0,0)''" None]
    unfolding e by (simp add: exStroke_fields absent_def)
qed


subsection \<open>The commit waits for the end of the stroke (C4)\<close>

text \<open>
  Claim C4. The debounced snapshot commit is first armed with a delay of 5 seconds (by the
  paint that finds no pending paint state). Whenever the commit runs while the brush is
  down, be it called or fired by its timer, it captures nothing (no \<open>canvasToBlob\<close>, no
  promise left behind) and enqueues no history entry, and re-arms itself with a delay of
  1 second; so \<open>storePaintState\<close> starts the commit only once the brush is no longer down.
\<close>

theorem commit_waits_for_stroke_end:
  "(absent (pendingPaintState s) \<longrightarrow>
      pendingPaintState (snd (paint a s)) = Some (Suc (timerCount s))
      \<and> timers (snd (paint a s)) = timers s @ [(Suc (timerCount s), 5000)])
   \<and> (pendingPaintState s = Some t \<and> 0 < t \<and> down (brush s) \<longrightarrow>
      fst (storePaintState s) = ReturnsFalse
      \<and> jobs (snd (storePaintState s)) = jobs s
      \<and> trace (snd (storePaintState s))
          = trace s @ [ClearTimeout t, SetTimeout (Suc (timerCount s)) 1000]
      \<and> pendingPaintState (snd (storePaintState s)) = Some (Suc (timerCount s))
      \<and> timers (snd (storePaintState s))
          = filter (\<lambda>(i, d). i \<noteq> t) (timers s) @ [(Suc (timerCount s), 1000)])
   \<and> (pendingPaintState s = Some t \<and> 0 < t \<and> down (brush s) \<and> t \<in> fst ` set (timers s) \<longrightarrow>
      jobs (fireTimer t s) = jobs s
      \<and> trace (fireTimer t s) = trace s @ [ClearTimeout t, SetTimeout (Suc (timerCount s)) 1000]
      \<and> pendingPaintState (fireTimer t s) = Some (Suc (timerCount s))
      \<and> timers (fireTimer t s)
          = filter (\<lambda>(i, d). i \<noteq> t) (timers s) @ [(Suc (timerCount s), 1000)])
   \<and> (down (brush s) \<longrightarrow>
      fst (storePaintState s) \<noteq> ReturnsPromise
      \<and> jobs (snd (storePaintState s)) = jobs s
      \<and> filter isEnqueueState (trace (snd (storePaintState s))) = filter isEnqueueState (trace s))"
proof (intro conjI impI)
  assume "absent (pendingPaintState s)"
  then show "pendingPaintState (snd (paint a s)) = Some (Suc (timerCount s))"
    and "timers (snd (paint a s)) = timers s @ [(Suc (timerCount s), 5000)]"
    using paint_arms [of s a] by simp_all
next
  assume h: "pendingPaintState s = Some t \<and> 0 < t \<and> down (brush s)"
  then have e: "storePaintState s =
           (ReturnsFalse,
            s\<lparr>timers := filter (\<lambda>(i, d). i \<noteq> t) (timers s) @ [(Suc (timerCount s), 1000)],
              timerCount := Suc (timerCount s),
              pendingPaintState := Some (Suc (timerCount s)),
              trace := trace s @ [ClearTimeout t, SetTimeout (Suc (timerCount s)) 1000]\<rparr>)"
    using storePaintState_down [of s t] by simp
  show "fst (storePaintState s) = ReturnsFalse" by (simp add: e)
  show "jobs (snd (storePaintState s)) = jobs s" by (simp add: e)
  show "trace (snd (storePaintState s))
          = trace s @ [ClearTimeout t, SetTimeout (Suc (timerCount s)) 1000]" by (simp add: e)
  show "pendingPaintState (snd (storePaintState s)) = Some (Suc (timerCount s))" by (simp add: e)
  show "timers (snd (storePaintState s))
          = filter (\<lambda>(i, d). i \<noteq> t) (timers s) @ [(Suc (timerCount s), 1000)]" by (simp add: e)
next
  assume h: "pendingPaintState s = Some t \<and> 0 < t \<and> down (brush s) \<and> t \<in> fst ` set (timers s)"
  define s0 where "s0 = s\<lparr>timers := filter (\<lambda>(i, d). i \<noteq> t) (timers s)\<rparr>"
  have f: "fireTimer t s = snd (storePaintState s0)" using h by (simp add: fireTimer_def s0_def)
  have "pendingPaintState s0 = Some t" "0 < t" "down (brush s0)" using h by (simp_all add: s0_def)
  note e = storePaintState_down [OF this]
  show "jobs (fireTimer t s) = jobs s" by (simp add: f e) (simp add: s0_def)
  show "trace (fireTimer t s) = trace s @ [ClearTimeout t, SetTimeout (Suc (timerCount s)) 1000]"
    by (simp add: f e) (simp add: s0_def)
  show "pendingPaintState (fireTimer t s) = Some (Suc (timerCount s))"
    by (simp add: f e) (simp add: s0_def)
  show "timers (fireTimer t s)
          = filter (\<lambda>(i, d). i \<noteq> t) (timers s) @ [(Suc (timerCount s), 1000)]"
    by (simp add: f e) (simp add: s0_def)
next
  assume d: "down (brush s)"
  have "fst (storePaintState s) \<noteq> ReturnsPromise
      \<and> jobs (snd (storePaintState s)) = jobs s
      \<and> filter isEnqueueState (trace (snd (storePaintState s))) = filter isEnqueueState (trace s)"
    using d
    by (simp add: storePaintState_def clearTimeout_def debouncePaintStore_def setTimeout_def
          emit_def Let_def)
  then show "fst (storePaintState s) \<noteq> ReturnsPromise"
    and "jobs (snd (storePaintState s)) = jobs s"
    and "filter isEnqueueState (trace (snd (storePaintState s))) = filter isEnqueueState (trace s)"
    by simp_all
qed


theorem commit_waits_for_stroke_end_witness:
  "absent (pendingPaintState exSprite)
   \<and> timers (snd (paint None exSprite)) = [(1, 5000)]
   \<and> pendingPaintState exStroke = Some 1 \<and> down (brush exStroke)
   \<and> fst (storePaintState exStroke) = ReturnsFalse
   \<and> jobs (fireTimer 1 exStroke) = jobs exStroke
   \<and> trace (fireTimer 1 exStroke) = trace exStroke @ [ClearTimeout 1, SetTimeout 2 1000]
   \<and> timers (fireTimer 1 exStroke) = [(2, 1000)]"
  using commit_waits_for_stroke_end [of exSprite None 1]
        commit_waits_for_stroke_end [of exStroke None 1]
  by (simp add: exStroke_fields exSprite_fields absent_def)


subsection \<open>Switching tools with a pending commit (C1)\<close>

lemma activateTool_same:
  "jobs (activateTool tool opts doc s) = jobs s"
  "pendingPaintState (activateTool tool opts doc s) = pendingPaintState s"
  "timers (activateTool tool opts doc s) = timers s"
  "resourceCount (activateTool tool opts doc s) = resourceCount s"
  "filter isEnqueueState (trace (activateTool tool opts doc s)) = filter isEnqueueState (trace s)"
  by (simp_all add: activateTool_def Let_def emit_def setDraggable_def setSelection_def
        cacheBrush_def forceMoveListener_def)

lemma resetInteraction_same:
  "jobs (resetInteraction s) = jobs s"
  "timers (resetInteraction s) = timers s"
  "trace (resetInteraction s) = trace s"
  "pendingPaintState (resetInteraction s) = pendingPaintState s"
  by (simp_all add: resetInteraction_def)

text \<open>
  Claim C1, as amended. When \<open>handleActiveTool\<close> runs while a debounced snapshot commit is
  pending, the outcome is the one of flushing first and resetting the interaction state
  afterwards (the source resets first, and \<open>storePaintState\<close> reads none of the fields
  that are reset). If the brush is not down, the pending timer is cleared and the commit
  is started at once: the snapshot is requested, and the history entry is enqueued when
  that request completes. If the brush is still down, no commit is started and no history
  entry is enqueued: the pending timer is cleared and re-armed with a delay of 1 second,
  so the commit stays pending.
\<close>

theorem handleActiveTool_flushes_when_released:
  assumes "pendingPaintState s = Some t" and "0 < t"
  shows "handleActiveTool tool toolOpts doc s
           = activateTool tool toolOpts doc (resetInteraction (snd (storePaintState s)))
       \<and> (\<not> down (brush s) \<longrightarrow>
            pendingPaintState (handleActiveTool tool toolOpts doc s) = None
          \<and> timers (handleActiveTool tool toolOpts doc s) = filter (\<lambda>(i, d). i \<noteq> t) (timers s)
          \<and> jobs (handleActiveTool tool toolOpts doc s)
              = jobs s @ [CommitJob (layer_id (layer s)) (orgSourceToStore s)]
          \<and> trace (resolveJob (length (jobs s)) (handleActiveTool tool toolOpts doc s))
              = trace (handleActiveTool tool toolOpts doc s)
                @ [EnqueueState (SpritePaint (layer_id (layer s)) (orgSourceToStore s)
                                   (Suc (resourceCount s)))])
       \<and> (down (brush s) \<longrightarrow>
            pendingPaintState (handleActiveTool tool toolOpts doc s) = Some (Suc (timerCount s))
          \<and> timers (handleActiveTool tool toolOpts doc s)
              = filter (\<lambda>(i, d). i \<noteq> t) (timers s) @ [(Suc (timerCount s), 1000)]
          \<and> jobs (handleActiveTool tool toolOpts doc s) = jobs s
          \<and> filter isEnqueueState (trace (handleActiveTool tool toolOpts doc s))
              = filter isEnqueueState (trace s))"
proof -
  define s' where "s' = handleActiveTool tool toolOpts doc s"
  have eq: "s' = activateTool tool toolOpts doc (resetInteraction (snd (storePaintState s)))"
    by (simp add: s'_def handleActiveTool_def resetInteraction_store_commute)
  have up: "\<not> down (brush s) \<longrightarrow>
            pendingPaintState s' = None
          \<and> timers s' = filter (\<lambda>(i, d). i \<noteq> t) (timers s)
          \<and> jobs s' = jobs s @ [CommitJob (layer_id (layer s)) (orgSourceToStore s)]
          \<and> trace (resolveJob (length (jobs s)) s')
              = trace s' @ [EnqueueState (SpritePaint (layer_id (layer s)) (orgSourceToStore s)
                                   (Suc (resourceCount s)))]"
  proof
    assume nd: "\<not> down (brush s)"
    note e = storePaintState_up [OF assms nd]
    have j: "jobs s' = jobs s @ [CommitJob (layer_id (layer s)) (orgSourceToStore s)]"
      by (simp add: eq activateTool_same e resetInteraction_def)
    have rc: "resourceCount s' = resourceCount s"
      by (simp add: eq activateTool_same e resetInteraction_def)
    have "trace (resolveJob (length (jobs s)) s')
              = trace s' @ [EnqueueState (SpritePaint (layer_id (layer s)) (orgSourceToStore s)
                                   (Suc (resourceCount s)))]"
      by (simp add: resolveJob_def j rc Let_def emit_def)
    moreover have "pendingPaintState s' = None"
      by (simp add: eq activateTool_same e resetInteraction_def)
    moreover have "timers s' = filter (\<lambda>(i, d). i \<noteq> t) (timers s)"
      by (simp add: eq activateTool_same e resetInteraction_def)
    ultimately show "pendingPaintState s' = None
          \<and> timers s' = filter (\<lambda>(i, d). i \<noteq> t) (timers s)
          \<and> jobs s' = jobs s @ [CommitJob (layer_id (layer s)) (orgSourceToStore s)]
          \<and> trace (resolveJob (length (jobs s)) s')
              = trace s' @ [EnqueueState (SpritePaint (layer_id (layer s)) (orgSourceToStore s)
                                   (Suc (resourceCount s)))]"
      using j by simp
  qed
  have dn: "down (brush s) \<longrightarrow>
            pendingPaintState s' = Some (Suc (timerCount s))
          \<and> timers s' = filter (\<lambda>(i, d). i \<noteq> t) (timers s) @ [(Suc (timerCount s), 1000)]
          \<and> jobs s' = jobs s
          \<and> filter isEnqueueState (trace s') = filter isEnqueueState (trace s)"
  proof
    assume d: "down (brush s)"
    note e = storePaintState_down [OF assms d]
    show "pendingPaintState s' = Some (Suc (timerCount s))
          \<and> timers s' = filter (\<lambda>(i, d). i \<noteq> t) (timers s) @ [(Suc (timerCount s), 1000)]
          \<and> jobs s' = jobs s
          \<and> filter isEnqueueState (trace s') = filter isEnqueueState (trace s)"
      by (simp add: eq activateTool_same e resetInteraction_def)
  qed
  show ?thesis using eq up dn unfolding s'_def by blast
qed

theorem handleActiveTool_flushes_when_released_witness:
  "pendingPaintState exFilled = Some 1
   \<and> \<not> down (brush exFilled)
   \<and> pendingPaintState (handleActiveTool (Some BRUSH) exOptions exDocument exFilled) = None
   \<and> timers (handleActiveTool (Some BRUSH) exOptions exDocument exFilled) = []
   \<and> jobs (handleActiveTool (Some BRUSH) exOptions exDocument exFilled)
       = [PrepareJob, CommitJob ''L1'' None]
   \<and> trace (resolveJob 1 (handleActiveTool (Some BRUSH) exOptions exDocument exFilled))
       = trace (handleActiveTool (Some BRUSH) exOptions exDocument exFilled)
         @ [EnqueueState (SpritePaint ''L1'' None 1)]"
proof -
  have p: "0 < (1::nat)" by simp
  note r = handleActiveTool_flushes_when_released
             [OF exFilled_fields(1) p, of "Some BRUSH" exOptions exDocument,
              THEN conjunct2, THEN conjunct1]
  from r show ?thesis by (simp add: exFilled_fields exLayer_def)
qed


text \<open>
  The claim as stated fails mid-stroke: the brush stroke of \<open>exStroke\<close> is down, with its
  commit pending on timer 1, when the drag tool is activated. No snapshot is requested
  and no history entry is enqueued; the commit is put off by another second on timer 2.
\<close>

theorem handleActiveTool_mid_stroke_counterexample:
  "pendingPaintState exStroke = Some 1
   \<and> down (brush exStroke)
   \<and> jobs (handleActiveTool (Some DRAG) exOptions exDocument exStroke) = jobs exStroke
   \<and> filter isEnqueueState (trace (handleActiveTool (Some DRAG) exOptions exDocument exStroke)) = []
   \<and> pendingPaintState (handleActiveTool (Some DRAG) exOptions exDocument exStroke) = Some 2
   \<and> timers (handleActiveTool (Some DRAG) exOptions exDocument exStroke) = [(2, 1000)]"
proof -
  have p: "0 < (1::nat)" by simp
  have e: "handleActiveTool (Some DRAG) exOptions exDocument exStroke
           = activateTool (Some DRAG) exOptions exDocument
               (resetInteraction (snd (storePaintState exStroke)))"
    by (simp add: handleActiveTool_def resetInteraction_store_commute)
  show ?thesis
    unfolding e
    by (simp add: activateTool_same resetInteraction_same exStroke_fields
          storePaintState_down [OF exStroke_fields(1) p exStroke_fields(4)])
qed



subsection \<open>Release without a stroke (C2)\<close>







subsection \<open>Release of a stroke (C3)\<close>

lemma rw_paint_clip: "rasterWrites (snd (paint_clip c w h lr a s)) = rasterWrites s"
  by (simp add: paint_clip_def Let_def emit_def rasterWrites_def split: option.splits)

lemma rw_paint_restore: "rasterWrites (paint_restore lr sel c s) = rasterWrites s"
  by (simp add: paint_restore_def Let_def resetFilterAndRecache_def cacheEffects_def emit_def
        rasterWrites_def)

lemma rw_prepare: "rasterWrites (preparePendingPaintState s) = rasterWrites s"
  by (simp add: preparePendingPaintState_def debouncePaintStore_def setTimeout_def emit_def
        Let_def rasterWrites_def)

lemma rw_storePaintState: "rasterWrites (snd (storePaintState s)) = rasterWrites s"
  by (simp add: storePaintState_def debouncePaintStore_def setTimeout_def clearTimeout_def
        emit_def Let_def rasterWrites_def)

lemma rw_releaseMode: "rasterWrites (releaseMode s) = rasterWrites s"
  by (simp add: releaseMode_def forceMoveListener_def snapSpriteToGuide_def setBounds_def
        Let_def emit_def rasterWrites_def split: option.splits)

lemma rw_paint_dispatch_fullres:
  "rasterWrites (snd (snd (paint_dispatch c w h False None sel s))) =
     rasterWrites s @
     (if toolType s = Some FILL then
        (case toolOptions s of
           None \<Rightarrow> []
         | Some opts \<Rightarrow>
             if smartFill opts
             then [FloodFill c (fst (rotatePointer (pointerX s) (pointerY s) (layer s) w h))
                     (snd (rotatePointer (pointerX s) (pointerY s) (layer s) w h))
                     (activeColor (store s))]
             else if selection s \<noteq> None then [CtxFill c] else [CtxFillRect c 0 0 w h])
      else if toolType s = Some CLONE then []
      else [RenderBrushStroke ScratchCtx
              ((brush s)\<lparr>pointers := rotatePointerLists (pointers (brush s)) (layer s) w h\<rparr>)
              False,
            CtxDrawImage c ScratchCtx])"
  by (simp add: paint_dispatch_def paint_fill_def paint_brush_def Let_def emit_def
        rasterWrites_def split: option.splits)

lemma paint_clip_other:
  "pointerX (snd (paint_clip c w h lr a s)) = pointerX s"
  "pointerY (snd (paint_clip c w h lr a s)) = pointerY s"
  "store (snd (paint_clip c w h lr a s)) = store s"
  "selection (snd (paint_clip c w h lr a s)) = selection s"
  by (simp_all add: paint_clip_def Let_def emit_def split: option.splits)

lemma paint_body_fullres_writes:
  assumes "\<not> down (brush s)"
  shows "rasterWrites (snd (paint_body None s)) =
     rasterWrites s @
       (if toolType s = Some FILL then
          (case toolOptions s of
             None \<Rightarrow> []
           | Some opts \<Rightarrow>
               if smartFill opts
               then [FloodFill (drawingContext s)
                       (fst (rotatePointer (pointerX s) (pointerY s) (layer s)
                               (cvs_width (drawingCanvas s)) (cvs_height (drawingCanvas s))))
                       (snd (rotatePointer (pointerX s) (pointerY s) (layer s)
                               (cvs_width (drawingCanvas s)) (cvs_height (drawingCanvas s))))
                       (activeColor (store s))]
               else if selection s \<noteq> None then [CtxFill (drawingContext s)]
               else [CtxFillRect (drawingContext s) 0 0
                       (cvs_width (drawingCanvas s)) (cvs_height (drawingCanvas s))])
        else if toolType s = Some CLONE then []
        else [RenderBrushStroke ScratchCtx
                (brush s\<lparr>pointers := rotatePointerLists (pointers (brush s)) (layer s)
                                        (cvs_width (drawingCanvas s))
                                        (cvs_height (drawingCanvas s))\<rparr>)
                False,
              CtxDrawImage (drawingContext s) ScratchCtx])"
proof -
  define ctx where "ctx = drawingContext s"
  define width where "width = cvs_width (drawingCanvas s)"
  define height where "height = cvs_height (drawingCanvas s)"
  define s1 where "s1 = emit (CtxSave ctx) (emit (GetContext ctx) s)"
  define lowRes where "lowRes = isLowResPreview s1"
  define clip where "clip = paint_clip ctx width height lowRes None s1"
  define r where "r = paint_dispatch ctx width height lowRes None (fst clip) (snd clip)"
  have lr: "\<not> lowRes" using assms by (simp add: lowRes_def isLowResPreview_def s1_def emit_def)
  have fc: "brush (snd clip) = brush s" "layer (snd clip) = layer s"
    "toolType (snd clip) = toolType s" "toolOptions (snd clip) = toolOptions s"
    "pointerX (snd clip) = pointerX s" "pointerY (snd clip) = pointerY s"
    "store (snd clip) = store s" "selection (snd clip) = selection s"
    by (simp_all add: clip_def paint_clip_same paint_clip_other s1_def emit_def)
  have wc: "rasterWrites (snd clip) = rasterWrites s"
    by (simp add: clip_def rw_paint_clip) (simp add: s1_def emit_def rasterWrites_def)
  have res: "snd (paint_body None s) =
      (case fst r of Some e \<Rightarrow> snd (snd r)
       | None \<Rightarrow> paint_restore lowRes (fst clip) (fst (snd r)) (snd (snd r)))"
    unfolding paint_body_start Let_def r_def clip_def lowRes_def s1_def height_def width_def ctx_def ..
  have "rasterWrites (snd (paint_body None s)) = rasterWrites (snd (snd r))"
    unfolding res by (cases "fst r") (simp_all add: rw_paint_restore)
  also have "\<dots> = rasterWrites (snd (snd (paint_dispatch ctx width height False None (fst clip) (snd clip))))"
    using lr by (simp add: r_def)
  finally show ?thesis
    unfolding rw_paint_dispatch_fullres fc wc ctx_def width_def height_def .
qed

lemma prepare_drawing:
  "drawingCanvas (preparePendingPaintState s) = drawingCanvas s"
  "drawingContext (preparePendingPaintState s) = drawingContext s"
  "pointerX (preparePendingPaintState s) = pointerX s"
  "pointerY (preparePendingPaintState s) = pointerY s"
  "selection (preparePendingPaintState s) = selection s"
  by (auto simp: drawingCanvas_def drawingContext_def isMaskable_def prepare_same
        preparePendingPaintState_def debouncePaintStore_def setTimeout_def emit_def Let_def)

lemma paint_fullres_writes:
  assumes "\<not> down (brush s)"
  shows "rasterWrites (snd (paint None s)) =
     rasterWrites s @
       (if toolType s = Some FILL then
          (case toolOptions s of
             None \<Rightarrow> []
           | Some opts \<Rightarrow>
               if smartFill opts
               then [FloodFill (drawingContext s)
                       (fst (rotatePointer (pointerX s) (pointerY s) (layer s)
                               (cvs_width (drawingCanvas s)) (cvs_height (drawingCanvas s))))
                       (snd (rotatePointer (pointerX s) (pointerY s) (layer s)
                               (cvs_width (drawingCanvas s)) (cvs_height (drawingCanvas s))))
                       (activeColor (store s))]
               else if selection s \<noteq> None then [CtxFill (drawingContext s)]
               else [CtxFillRect (drawingContext s) 0 0
                       (cvs_width (drawingCanvas s)) (cvs_height (drawingCanvas s))])
        else if toolType s = Some CLONE then []
        else [RenderBrushStroke ScratchCtx
                (brush s\<lparr>pointers := rotatePointerLists (pointers (brush s)) (layer s)
                                        (cvs_width (drawingCanvas s))
                                        (cvs_height (drawingCanvas s))\<rparr>)
                False,
              CtxDrawImage (drawingContext s) ScratchCtx])"
proof (cases "absent (pendingPaintState s)")
  case False
  then show ?thesis using paint_body_fullres_writes [OF assms] by (simp add: paint_def)
next
  case True
  have "\<not> down (brush (preparePendingPaintState s))" using assms by (simp add: prepare_same)
  from paint_body_fullres_writes [OF this, unfolded prepare_same prepare_drawing rw_prepare]
  show ?thesis
    using True by (simp add: paint_def)
qed

lemma releaseMode_same:
  "paintCount (trace (releaseMode s)) = paintCount (trace s)"
  "tempCanvas (releaseMode s) = tempCanvas s"
  "brush (releaseMode s) = brush s"
  "pendingPaintState (releaseMode s) = pendingPaintState s"
  "jobs (releaseMode s) = jobs s"
  by (simp_all add: releaseMode_def forceMoveListener_def snapSpriteToGuide_def setBounds_def
        Let_def emit_def paintCount_def split: option.splits)

lemma exCloneStroke_fields:
  "down (brush exCloneStroke)" "toolType exCloneStroke = Some CLONE"
  "pointers (brush exCloneStroke) = [(50, 50), (60, 50)]"
  "toolOptions exCloneStroke = Some (exOptions\<lparr>coords := Some (5, 5)\<rparr>)"
  "cloneStartCoords exCloneStroke = Some (50, 50)"
  "trace exCloneStroke =
     [SetLock True, RequestAnimationFrame, Invalidate, CanvasToBlob, SetTimeout 1 5000,
      GetContext LayerSource, CtxSave LayerSource,
      RenderClonedStroke LayerSource
        \<lparr>color = ''red'', radius = 5, pointers = [(50, 50), (60, 50)], down = True,
         last_idx = 0, options = exOptions\<rparr> ''L0'' [(50, 50), (60, 50)],
      SetBitmap LayerSource, CtxRestore LayerSource]"
  by (simp_all add: ex_defs sprite_defs)

text \<open>
  Claim C3, as amended. When the brush is down, \<open>handleRelease\<close> disposes of the
  low-resolution canvas and forgets it, clears the down flag and resets the count of
  processed samples to 0, then runs \<open>paint\<close> exactly once, on a state that still holds the
  whole recorded pointer path and is no preview, then clears the recorded pointers, and
  then, if and only if the \<open>lowMemory\<close> preference is off, forces the pending snapshot
  commit: the timer is cleared and the snapshot requested at once. With \<open>lowMemory\<close> on,
  the timer is left to fire. What that one paint draws depends on the tool. For a brush or
  an eraser it renders the whole recorded pointer path at full resolution on a scratch
  canvas and draws that canvas onto the drawing context of the layer, and draws nothing
  else. For the clone tool it draws nothing. For the fill tool it fills once (and needs the
  tool options for the paint to return). Nothing that follows the paint draws.
\<close>

theorem release_commits_stroke:
  assumes "down (brush s)" and "toolType s = Some FILL \<longrightarrow> toolOptions s \<noteq> None"
  shows "let s1 = (emit DisposeTempCanvas s)
                    \<lparr>tempCanvas := None, brush := (brush s)\<lparr>down := False, last_idx := 0\<rparr>\<rparr>;
             s2 = snd (paint None s1);
             s3 = s2\<lparr>brush := (brush s2)\<lparr>pointers := []\<rparr>\<rparr>;
             t = (case pendingPaintState s2 of Some t \<Rightarrow> t | None \<Rightarrow> 0);
             s4 = (if lowMemory (store s) then s3
                   else s3\<lparr>timers := filter (\<lambda>(i, d). i \<noteq> t) (timers s3),
                           pendingPaintState := None,
                           orgSourceToStore := None,
                           jobs := jobs s3 @ [CommitJob (layer_id (layer s)) (orgSourceToStore s)],
                           trace := trace s3 @ [ClearTimeout t, CanvasToBlob]\<rparr>)
         in handleRelease px py s = (None, releaseMode s4)
          \<and> pointers (brush s1) = pointers (brush s)
          \<and> last_idx (brush s1) = 0
          \<and> \<not> isLowResPreview s1
          \<and> paintCount (trace (snd (handleRelease px py s))) = Suc (paintCount (trace s))
          \<and> tempCanvas (snd (handleRelease px py s)) = None
          \<and> \<not> down (brush (snd (handleRelease px py s)))
          \<and> pointers (brush (snd (handleRelease px py s))) = []
          \<and> (lowMemory (store s) \<longrightarrow>
                \<not> absent (pendingPaintState (snd (handleRelease px py s)))
              \<and> jobs (snd (handleRelease px py s)) = jobs s2)
          \<and> (\<not> lowMemory (store s) \<longrightarrow>
                pendingPaintState (snd (handleRelease px py s)) = None
              \<and> jobs (snd (handleRelease px py s))
                  = jobs s2 @ [CommitJob (layer_id (layer s)) (orgSourceToStore s)])
          \<and> rasterWrites s2 =
              rasterWrites s @
              (if toolType s = Some FILL then
                (case toolOptions s of
                   None \<Rightarrow> []
                 | Some opts \<Rightarrow>
                     if smartFill opts
                     then [FloodFill (drawingContext s)
                             (fst (rotatePointer (pointerX s) (pointerY s) (layer s)
                                     (cvs_width (drawingCanvas s)) (cvs_height (drawingCanvas s))))
                             (snd (rotatePointer (pointerX s) (pointerY s) (layer s)
                                     (cvs_width (drawingCanvas s)) (cvs_height (drawingCanvas s))))
                             (activeColor (store s))]
                     else if selection s \<noteq> None then [CtxFill (drawingContext s)]
                     else [CtxFillRect (drawingContext s) 0 0
                             (cvs_width (drawingCanvas s)) (cvs_height (drawingCanvas s))])
              else if toolType s = Some CLONE then []
              else [RenderBrushStroke ScratchCtx
                      ((brush s)\<lparr>down := False, last_idx := 0,
                                 pointers := rotatePointerLists (pointers (brush s)) (layer s)
                                               (cvs_width (drawingCanvas s))
                                               (cvs_height (drawingCanvas s))\<rparr>)
                      False,
                    CtxDrawImage (drawingContext s) ScratchCtx])
          \<and> rasterWrites (snd (handleRelease px py s)) = rasterWrites s2"
proof -
  define s1 where "s1 = (emit DisposeTempCanvas s)
                    \<lparr>tempCanvas := None, brush := (brush s)\<lparr>down := False, last_idx := 0\<rparr>\<rparr>"
  define s2 where "s2 = snd (paint None s1)"
  define s3 where "s3 = s2\<lparr>brush := (brush s2)\<lparr>pointers := []\<rparr>\<rparr>"
  define t where "t = (case pendingPaintState s2 of Some t \<Rightarrow> t | None \<Rightarrow> 0)"
  define s4 where "s4 = (if lowMemory (store s) then s3
                   else s3\<lparr>timers := filter (\<lambda>(i, d). i \<noteq> t) (timers s3),
                           pendingPaintState := None,
                           orgSourceToStore := None,
                           jobs := jobs s3 @ [CommitJob (layer_id (layer s)) (orgSourceToStore s)],
                           trace := trace s3 @ [ClearTimeout t, CanvasToBlob]\<rparr>)"
  have f1: "brush s1 = (brush s)\<lparr>down := False, last_idx := 0\<rparr>" "toolType s1 = toolType s"
    "toolOptions s1 = toolOptions s" "layer s1 = layer s" "store s1 = store s"
    "orgSourceToStore s1 = orgSourceToStore s" "tempCanvas s1 = None"
    "paintCount (trace s1) = paintCount (trace s)"
    by (simp_all add: s1_def emit_def paintCount_def)
  have d1: "\<not> down (brush s1)" by (simp add: f1)
  have lr: "\<not> isLowResPreview s1" using d1 by (simp add: isLowResPreview_def)
  have "fst (paint None s1) = None"
    using assms(2) d1 by (intro paint_returns) (auto simp: f1)
  then have p: "paint None s1 = (None, s2)" by (simp add: s2_def prod_eq_iff)
  have b2: "brush s2 = (brush s1)\<lparr>pointers := pointers (brush s2)\<rparr>"
    unfolding s2_def by (rule paint_frame(1))
  have d2: "\<not> down (brush s2)" using d1 by (subst b2) simp
  have c2: "paintCount (trace s2) = Suc (paintCount (trace s))"
    unfolding s2_def using paint_frame(3) [of None s1] by (simp add: f1)
  have na: "\<not> absent (pendingPaintState s2)" unfolding s2_def by (rule paint_frame(5))
  have tc2: "tempCanvas s2 = None"
    unfolding s2_def using paint_frame(9) [of s1 None] d1 by (simp add: f1)
  have l2: "layer s2 = layer s" "store s2 = store s" "orgSourceToStore s2 = orgSourceToStore s"
    unfolding s2_def using paint_frame(6-8) [of None s1] by (simp_all add: f1)
  have pt: "pendingPaintState s3 = Some t" "0 < t"
    using na by (cases "pendingPaintState s2"; simp add: absent_def s3_def t_def)+
  have d3: "\<not> down (brush s3)" using d2 by (simp add: s3_def)
  have sp: "snd (storePaintState s3) =
      s3\<lparr>timers := filter (\<lambda>(i, d). i \<noteq> t) (timers s3),
         pendingPaintState := None,
         orgSourceToStore := None,
         jobs := jobs s3 @ [CommitJob (layer_id (layer s)) (orgSourceToStore s)],
         trace := trace s3 @ [ClearTimeout t, CanvasToBlob]\<rparr>"
    using storePaintState_up [OF pt d3] by (simp add: s3_def l2)
  have s4': "s4 = (if \<not> lowMemory (store s3) then snd (storePaintState s3) else s3)"
    by (simp add: s4_def sp) (simp add: s3_def l2)
  have hr: "handleRelease px py s = (None, releaseMode s4)"
    using assms(1) p unfolding handleRelease_def Let_def s4'
    by (simp add: s1_def s3_def emit_def)
  have c4: "paintCount (trace s4) = Suc (paintCount (trace s))"
    using c2 by (simp add: s4_def s3_def paintCount_def)
  have r1: "paintCount (trace (releaseMode s4)) = Suc (paintCount (trace s))"
    by (simp add: releaseMode_same c4)
  have r2: "tempCanvas (releaseMode s4) = None"
    by (simp add: releaseMode_same s4_def s3_def tc2)
  have r3: "\<not> down (brush (releaseMode s4))" "pointers (brush (releaseMode s4)) = []"
    using d2 by (simp_all add: releaseMode_same s4_def s3_def)
  have r4: "lowMemory (store s) \<longrightarrow>
              \<not> absent (pendingPaintState (releaseMode s4)) \<and> jobs (releaseMode s4) = jobs s2"
    using na by (simp add: releaseMode_same s4_def s3_def)
  have r5: "\<not> lowMemory (store s) \<longrightarrow>
              pendingPaintState (releaseMode s4) = None
            \<and> jobs (releaseMode s4) = jobs s2 @ [CommitJob (layer_id (layer s)) (orgSourceToStore s)]"
    by (simp add: releaseMode_same s4_def s3_def)
  have g1: "toolType s1 = toolType s" "toolOptions s1 = toolOptions s"
    "drawingContext s1 = drawingContext s" "drawingCanvas s1 = drawingCanvas s"
    "pointerX s1 = pointerX s" "pointerY s1 = pointerY s" "layer s1 = layer s"
    "store s1 = store s" "selection s1 = selection s" "rasterWrites s1 = rasterWrites s"
    "pointers (brush s1) = pointers (brush s)"
    by (auto simp: s1_def emit_def drawingContext_def drawingCanvas_def isMaskable_def
          rasterWrites_def)
  have r6: "rasterWrites s2 =
              rasterWrites s @
              (if toolType s = Some FILL then
                (case toolOptions s of
                   None \<Rightarrow> []
                 | Some opts \<Rightarrow>
                     if smartFill opts
                     then [FloodFill (drawingContext s)
                             (fst (rotatePointer (pointerX s) (pointerY s) (layer s)
                                     (cvs_width (drawingCanvas s)) (cvs_height (drawingCanvas s))))
                             (snd (rotatePointer (pointerX s) (pointerY s) (layer s)
                                     (cvs_width (drawingCanvas s)) (cvs_height (drawingCanvas s))))
                             (activeColor (store s))]
                     else if selection s \<noteq> None then [CtxFill (drawingContext s)]
                     else [CtxFillRect (drawingContext s) 0 0
                             (cvs_width (drawingCanvas s)) (cvs_height (drawingCanvas s))])
              else if toolType s = Some CLONE then []
              else [RenderBrushStroke ScratchCtx
                      ((brush s)\<lparr>down := False, last_idx := 0,
                                 pointers := rotatePointerLists (pointers (brush s)) (layer s)
                                               (cvs_width (drawingCanvas s))
                                               (cvs_height (drawingCanvas s))\<rparr>)
                      False,
                    CtxDrawImage (drawingContext s) ScratchCtx])"
    unfolding s2_def paint_fullres_writes [OF d1] g1 by (simp add: f1)
  have r7: "rasterWrites (snd (handleRelease px py s)) = rasterWrites s2"
  proof -
    have "rasterWrites (releaseMode s4) = rasterWrites s4" by (rule rw_releaseMode)
    also have "\<dots> = rasterWrites s2" by (simp add: s4_def s3_def rasterWrites_def)
    finally show ?thesis by (simp add: hr)
  qed
  have "handleRelease px py s = (None, releaseMode s4)
          \<and> pointers (brush s1) = pointers (brush s)
          \<and> last_idx (brush s1) = 0
          \<and> \<not> isLowResPreview s1
          \<and> paintCount (trace (snd (handleRelease px py s))) = Suc (paintCount (trace s))
          \<and> tempCanvas (snd (handleRelease px py s)) = None
          \<and> \<not> down (brush (snd (handleRelease px py s)))
          \<and> pointers (brush (snd (handleRelease px py s))) = []
          \<and> (lowMemory (store s) \<longrightarrow>
                \<not> absent (pendingPaintState (snd (handleRelease px py s)))
              \<and> jobs (snd (handleRelease px py s)) = jobs s2)
          \<and> (\<not> lowMemory (store s) \<longrightarrow>
                pendingPaintState (snd (handleRelease px py s)) = None
              \<and> jobs (snd (handleRelease px py s))
                  = jobs s2 @ [CommitJob (layer_id (layer s)) (orgSourceToStore s)])"
    using hr r1 r2 r3 r4 r5 lr by (simp add: f1)
  with r6 r7 show ?thesis
    unfolding Let_def s4_def [symmetric] t_def [symmetric] s3_def [symmetric]
      s2_def [symmetric] s1_def [symmetric]
    by (elim conjE) (intro conjI; assumption)
qed

theorem release_commits_stroke_witness:
  "down (brush exStroke) \<and> \<not> lowMemory (store exStroke)
   \<and> fst (handleRelease 20 10 exStroke) = None
   \<and> tempCanvas (snd (handleRelease 20 10 exStroke)) = None
   \<and> \<not> down (brush (snd (handleRelease 20 10 exStroke)))
   \<and> pointers (brush (snd (handleRelease 20 10 exStroke))) = []
   \<and> pendingPaintState (snd (handleRelease 20 10 exStroke)) = None
   \<and> paintCount (trace (snd (handleRelease 20 10 exStroke))) = 2
   \<and> rasterWrites (snd (handleRelease 20 10 exStroke))
       = [RenderBrushStroke TempCtx
            \<lparr>color = ''red'', radius = 5, pointers = [(10, 10), (20, 10)], down = True,
             last_idx = 0, options = exOptions\<rparr> True,
          RenderBrushStroke ScratchCtx
            \<lparr>color = ''red'', radius = 5, pointers = [(10, 10), (20, 10)], down = False,
             last_idx = 0, options = exOptions\<rparr> False,
          CtxDrawImage LayerSource ScratchCtx]"
proof -
  have h: "toolType exStroke = Some FILL \<longrightarrow> toolOptions exStroke \<noteq> None"
    by (simp add: exStroke_fields)
  have pc: "paintCount (trace exStroke) = 1" by (simp add: exStroke_fields paintCount_def)
  have lm: "\<not> lowMemory (store exStroke)" by (simp add: exStroke_fields exStore_def)
  have b: "brush exStroke = \<lparr>color = ''red'', radius = 5, pointers = [(10, 10), (20, 10)],
             down = True, last_idx = 2, options = exOptions\<rparr>"
    by (simp add: ex_defs sprite_defs)
  have w: "rasterWrites exStroke = [RenderBrushStroke TempCtx
            \<lparr>color = ''red'', radius = 5, pointers = [(10, 10), (20, 10)], down = True,
             last_idx = 0, options = exOptions\<rparr> True]"
    by (simp add: rasterWrites_def exStroke_fields)
  have dc: "drawingContext exStroke = LayerSource" "cvs_width (drawingCanvas exStroke) = 100"
    "cvs_height (drawingCanvas exStroke) = 100"
    by (simp_all add: drawingContext_def drawingCanvas_def isMaskable_def exStroke_fields exLayer_def)
  have rp: "rotatePointerLists [(10, 10), (20, 10)] exLayer 100 100 = [(10, 10), (20, 10)]"
    by (simp add: rotatePointerLists_def translatePointerRotation_def exLayer_def Let_def)
  note r = release_commits_stroke [OF exStroke_fields(4) h, of 20 10, unfolded Let_def]
  have "fst (handleRelease 20 10 exStroke) = None"
    by (simp add: r [THEN conjunct1])
  then show ?thesis
    using r [THEN conjunct2, THEN conjunct2, THEN conjunct2, THEN conjunct2] lm pc
    by (simp add: exStroke_fields(4,7,9,10,11,12) b w dc rp)
qed

text \<open>
  The claim as stated fails for the clone tool: the stroke of \<open>exCloneStroke\<close> is down with
  two recorded pointers when it is released. The release runs \<open>paint\<close> once, and that
  paint saves and restores the context of the layer without a canvas write in between: no
  stroke is painted over the recorded path.
\<close>

theorem release_clone_stroke_counterexample:
  "down (brush exCloneStroke)
   \<and> pointers (brush exCloneStroke) = [(50, 50), (60, 50)]
   \<and> fst (handleRelease 60 50 exCloneStroke) = None
   \<and> paintCount (trace (snd (handleRelease 60 50 exCloneStroke)))
       = Suc (paintCount (trace exCloneStroke))
   \<and> rasterWrites (snd (handleRelease 60 50 exCloneStroke)) = rasterWrites exCloneStroke
   \<and> newEvents exCloneStroke (snd (handleRelease 60 50 exCloneStroke))
       = [DisposeTempCanvas, GetContext LayerSource, CtxSave LayerSource,
          CtxRestore LayerSource, ClearCacheProperty ''filterData'',
          ClearTimeout 1, CanvasToBlob]"
  by (simp add: ex_defs sprite_defs rasterWrites_def paintCount_def newEvents_def)


subsection \<open>Moves are recorded, the frame update paints (C6)\<close>

lemma handleMove_paintMode:
  assumes "isPaintMode s" and "down (brush s)"
  shows "brush (handleMove px py ty s) = (brush s)\<lparr>pointers := pointers (brush s) @ [(px, py)]\<rparr>"
    and "trace (handleMove px py ty s) = trace s"
    and "isPaintMode (handleMove px py ty s)"
    and "toolType (handleMove px py ty s) = toolType s"
    and "toolOptions (handleMove px py ty s) = toolOptions s"
  using assms by (simp_all add: handleMove_def moveBrush_def storeBrushPointer_def Let_def)

lemma moves_paintMode:
  assumes "isPaintMode s" and "down (brush s)"
  shows "brush (run (moveOps ms) s)
           = (brush s)\<lparr>pointers := pointers (brush s) @ map (\<lambda>(mx, my, ty). (mx, my)) ms\<rparr>
       \<and> trace (run (moveOps ms) s) = trace s
       \<and> isPaintMode (run (moveOps ms) s)
       \<and> toolType (run (moveOps ms) s) = toolType s
       \<and> toolOptions (run (moveOps ms) s) = toolOptions s"
  using assms
proof (induction ms arbitrary: s)
  case Nil
  then show ?case by (simp add: moveOps_def)
next
  case (Cons m ms)
  obtain mx my ty where m: "m = (mx, my, ty)" by (cases m)
  define s1 where "s1 = handleMove mx my ty s"
  have b1: "brush s1 = (brush s)\<lparr>pointers := pointers (brush s) @ [(mx, my)]\<rparr>"
    and t1: "trace s1 = trace s" and p1: "isPaintMode s1"
    and tt: "toolType s1 = toolType s" and to: "toolOptions s1 = toolOptions s"
    unfolding s1_def using handleMove_paintMode [OF Cons.prems] by simp_all
  have d1: "down (brush s1)" using b1 Cons.prems(2) by simp
  have r: "run (moveOps (m # ms)) s = run (moveOps ms) s1"
    by (simp add: moveOps_def m s1_def)
  show ?case
    unfolding r using Cons.IH [OF p1 d1] by (simp add: b1 t1 tt to m)
qed

lemma run_append: "run (cs @ ds) s = run ds (run cs s)"
  by (induction cs arbitrary: s) simp_all

lemma handleMove_quiet:
  "filter isRasterWrite (trace (handleMove px py ty s)) = filter isRasterWrite (trace s)"
  "paintCount (trace (handleMove px py ty s)) = paintCount (trace s)"
  by (simp_all add: handleMove_def moveBrush_def storeBrushPointer_def moveMask_def Let_def
        emit_def resetFilterAndRecache_def cacheEffects_def paintCount_def)

lemma update_down:
  assumes "down (brush s)"
  shows "paintCount (trace (snd (update s))) = Suc (paintCount (trace s))"
    and "fst (update s) = fst (paint None s)"
    and "fst (update s) = None \<Longrightarrow>
           last_idx (brush (snd (update s))) = length (pointers (brush (snd (update s))))"
    and "length (pointers (brush (snd (update s)))) = length (pointers (brush s))"
    and "down (brush (snd (update s)))"
proof -
  obtain e s1 where p: "paint None s = (e, s1)" by (cases "paint None s")
  have u: "update s = (case e of Some x \<Rightarrow> (Some x, s1)
        | None \<Rightarrow> (None, s1\<lparr>brush := (brush s1)\<lparr>last_idx := length (pointers (brush s1))\<rparr>\<rparr>))"
    using assms by (simp add: update_def p split: option.splits)
  have c: "paintCount (trace s1) = Suc (paintCount (trace s))"
    and l: "length (pointers (brush s1)) = length (pointers (brush s))"
    and b: "brush s1 = (brush s)\<lparr>pointers := pointers (brush s1)\<rparr>"
    using paint_frame(3) [of None s] paint_frame(2) [of None s] paint_frame(1) [of None s]
    by (simp_all add: p)
  have d: "down (brush s1)" using assms by (subst b) simp
  show "paintCount (trace (snd (update s))) = Suc (paintCount (trace s))"
    using c by (cases e) (simp_all add: u)
  show "fst (update s) = fst (paint None s)" by (cases e) (simp_all add: u p)
  show "fst (update s) = None \<Longrightarrow>
           last_idx (brush (snd (update s))) = length (pointers (brush (snd (update s))))"
    by (cases e) (simp_all add: u)
  show "length (pointers (brush (snd (update s)))) = length (pointers (brush s))"
    using l by (cases e) (simp_all add: u)
  show "down (brush (snd (update s)))" using d by (cases e) (simp_all add: u)
qed

text \<open>
  Claim C6, as amended. While the brush is down, a call of \<open>handleMove\<close> never draws and
  never runs \<open>paint\<close>. It appends exactly one pointer sample to the brush state and
  changes nothing else of it, except outside paint mode in drag mode with an action target
  other than the mask, where the move goes to the inherited drag handler and the brush
  state stays as it is. In paint mode the move calls no collaborator at all. The frame
  update, when the brush is down, runs \<open>paint\<close> exactly once and then sets the count of
  processed samples to the number of recorded samples (given the tool options that the
  fill and clone tools read). So in paint mode any number of moves followed by one frame
  update make exactly one paint, with all the moves recorded and counted as processed.
\<close>

theorem moves_record_update_paints_once:
  assumes "down (brush s)"
  shows "(isPaintMode s \<or> actionTarget s = ''mask'' \<or> \<not> isDragMode s \<longrightarrow>
            brush (handleMove px py ty s)
              = (brush s)\<lparr>pointers := pointers (brush s) @ [(px, py)]\<rparr>)
       \<and> (\<not> isPaintMode s \<and> actionTarget s \<noteq> ''mask'' \<and> isDragMode s \<longrightarrow>
            brush (handleMove px py ty s) = brush s
          \<and> trace (handleMove px py ty s) = trace s @ [SuperHandleMove px py])
       \<and> (isPaintMode s \<longrightarrow> trace (handleMove px py ty s) = trace s)
       \<and> filter isRasterWrite (trace (handleMove px py ty s)) = filter isRasterWrite (trace s)
       \<and> paintCount (trace (handleMove px py ty s)) = paintCount (trace s)
       \<and> paintCount (trace (snd (update s))) = Suc (paintCount (trace s))
       \<and> (toolOptions s \<noteq> None \<or> (toolType s \<noteq> Some FILL \<and> toolType s \<noteq> Some CLONE) \<longrightarrow>
            fst (update s) = None
          \<and> last_idx (brush (snd (update s))) = length (pointers (brush (snd (update s)))))
       \<and> (isPaintMode s \<longrightarrow>
            paintCount (trace (run (moveOps ms @ [Update]) s)) = Suc (paintCount (trace s))
          \<and> length (pointers (brush (run (moveOps ms @ [Update]) s)))
              = length (pointers (brush s)) + length ms
          \<and> (toolOptions s \<noteq> None \<or> (toolType s \<noteq> Some FILL \<and> toolType s \<noteq> Some CLONE) \<longrightarrow>
               last_idx (brush (run (moveOps ms @ [Update]) s))
                 = length (pointers (brush s)) + length ms))"
proof -
  have a: "isPaintMode s \<or> actionTarget s = ''mask'' \<or> \<not> isDragMode s \<longrightarrow>
            brush (handleMove px py ty s)
              = (brush s)\<lparr>pointers := pointers (brush s) @ [(px, py)]\<rparr>"
    using assms
    by (auto simp: handleMove_def moveBrush_def storeBrushPointer_def moveMask_def Let_def
          emit_def resetFilterAndRecache_def cacheEffects_def)
  have b: "\<not> isPaintMode s \<and> actionTarget s \<noteq> ''mask'' \<and> isDragMode s \<longrightarrow>
            brush (handleMove px py ty s) = brush s
          \<and> trace (handleMove px py ty s) = trace s @ [SuperHandleMove px py]"
    by (simp add: handleMove_def Let_def emit_def)
  have c: "isPaintMode s \<longrightarrow> trace (handleMove px py ty s) = trace s"
    using assms handleMove_paintMode(2) by simp
  note d = handleMove_quiet [of px py ty s]
  note u = update_down [OF assms]
  have e: "toolOptions s \<noteq> None \<or> (toolType s \<noteq> Some FILL \<and> toolType s \<noteq> Some CLONE) \<longrightarrow>
            fst (update s) = None
          \<and> last_idx (brush (snd (update s))) = length (pointers (brush (snd (update s))))"
  proof
    assume "toolOptions s \<noteq> None \<or> (toolType s \<noteq> Some FILL \<and> toolType s \<noteq> Some CLONE)"
    then have "fst (paint None s) = None" by (intro paint_returns) auto
    then have "fst (update s) = None" using u(2) by simp
    then show "fst (update s) = None
          \<and> last_idx (brush (snd (update s))) = length (pointers (brush (snd (update s))))"
      using u(3) by simp
  qed
  have f: "isPaintMode s \<longrightarrow>
            paintCount (trace (run (moveOps ms @ [Update]) s)) = Suc (paintCount (trace s))
          \<and> length (pointers (brush (run (moveOps ms @ [Update]) s)))
              = length (pointers (brush s)) + length ms
          \<and> (toolOptions s \<noteq> None \<or> (toolType s \<noteq> Some FILL \<and> toolType s \<noteq> Some CLONE) \<longrightarrow>
               last_idx (brush (run (moveOps ms @ [Update]) s))
                 = length (pointers (brush s)) + length ms)"
  proof
    assume pm: "isPaintMode s"
    define s1 where "s1 = run (moveOps ms) s"
    note m = moves_paintMode [OF pm assms, of ms, folded s1_def]
    have d1: "down (brush s1)" using m assms by simp
    have l1: "length (pointers (brush s1)) = length (pointers (brush s)) + length ms"
      using m by simp
    have r: "run (moveOps ms @ [Update]) s = snd (update s1)"
      by (simp add: run_append s1_def)
    note u1 = update_down [OF d1]
    have g: "toolOptions s \<noteq> None \<or> (toolType s \<noteq> Some FILL \<and> toolType s \<noteq> Some CLONE) \<longrightarrow>
               last_idx (brush (snd (update s1))) = length (pointers (brush s)) + length ms"
    proof
      assume "toolOptions s \<noteq> None \<or> (toolType s \<noteq> Some FILL \<and> toolType s \<noteq> Some CLONE)"
      then have "toolOptions s1 \<noteq> None \<or> (toolType s1 \<noteq> Some FILL \<and> toolType s1 \<noteq> Some CLONE)"
        using m by simp
      then have "fst (paint None s1) = None" by (intro paint_returns) auto
      then have "fst (update s1) = None" using u1(2) by simp
      then show "last_idx (brush (snd (update s1))) = length (pointers (brush s)) + length ms"
        using u1(3) u1(4) l1 by simp
    qed
    show "paintCount (trace (run (moveOps ms @ [Update]) s)) = Suc (paintCount (trace s))
          \<and> length (pointers (brush (run (moveOps ms @ [Update]) s)))
              = length (pointers (brush s)) + length ms
          \<and> (toolOptions s \<noteq> None \<or> (toolType s \<noteq> Some FILL \<and> toolType s \<noteq> Some CLONE) \<longrightarrow>
               last_idx (brush (run (moveOps ms @ [Update]) s))
                 = length (pointers (brush s)) + length ms)"
      unfolding r using u1(1) u1(4) l1 g m by simp
  qed
  show ?thesis using a b c d u(1) e f by blast
qed

theorem moves_record_update_paints_once_witness:
  "down (brush exStroke) \<and> isPaintMode exStroke
   \<and> pointers (brush (handleMove 30 10 ''mousemove'' exStroke)) = [(10, 10), (20, 10), (30, 10)]
   \<and> trace (handleMove 30 10 ''mousemove'' exStroke) = trace exStroke
   \<and> paintCount (trace (run (moveOps [(30, 10, ''mousemove''), (40, 10, ''mousemove'')] @ [Update])
                            exStroke)) = 2
   \<and> last_idx (brush (run (moveOps [(30, 10, ''mousemove''), (40, 10, ''mousemove'')] @ [Update])
                         exStroke)) = 4"
proof -
  have pc: "paintCount (trace exStroke) = 1" by (simp add: exStroke_fields paintCount_def)
  have b: "brush exStroke =
     \<lparr>color = ''red'', radius = 5, pointers = [(10, 10), (20, 10)], down = True,
      last_idx = 2, options = exOptions\<rparr>"
    by (simp add: ex_defs sprite_defs)
  show ?thesis
    using moves_record_update_paints_once
            [OF exStroke_fields(4), of 30 10 "''mousemove''"
               "[(30, 10, ''mousemove''), (40, 10, ''mousemove'')]"]
    by (simp add: exStroke_fields(6,9,10) pc b)
qed


text \<open>
  The claim as stated fails for a stroke that is interrupted by the activation of the drag
  tool and pressed again before it is released: the brush is still down (the drag tool
  does not renew the brush), and a move in drag mode returns from the drag branch before
  the pointer is recorded.
\<close>

theorem move_in_drag_mode_counterexample:
  "down (brush exSwitched) \<and> isDragMode exSwitched \<and> \<not> isPaintMode exSwitched
   \<and> pointers (brush exSwitched) = [(10, 10)]
   \<and> pointers (brush (handleMove 20 10 ''mousemove'' exSwitched)) = [(10, 10)]"
  by (simp add: exSwitched_def ex_defs sprite_defs)


subsection \<open>The two presses of the clone tool (C7)\<close>

text \<open>
  Claim C7. With the clone tool active (paint mode, tool options present): a press while
  the options hold no source coordinates stores the pressed position as the source anchor
  and returns; the brush state is untouched (no pointer, not down) and no collaborator is
  called (no paint). The press after it, and any press with a source anchor but no
  destination start anchor, stores the pressed position as the destination start anchor,
  records it as a pointer sample and sets the brush down; it does not paint either.
\<close>

theorem clone_press_anchors:
  assumes "isPaintMode s" and "\<not> isColorPicker s" and "toolType s = Some CLONE"
    and "toolOptions s = Some opts"
  shows "(coords opts = None \<longrightarrow>
            fst (handlePress px py ty s) = None
          \<and> toolOptions (snd (handlePress px py ty s)) = Some (opts\<lparr>coords := Some (px, py)\<rparr>)
          \<and> cloneStartCoords (snd (handlePress px py ty s)) = None
          \<and> brush (snd (handlePress px py ty s)) = brush s
          \<and> trace (snd (handlePress px py ty s)) = trace s
          \<and> (let s1 = snd (handlePress px py ty s); s2 = snd (handlePress qx qy ty s1)
              in fst (handlePress qx qy ty s1) = None
               \<and> cloneStartCoords s2 = Some (qx, qy)
               \<and> toolOptions s2 = Some (opts\<lparr>coords := Some (px, py)\<rparr>)
               \<and> brush s2 = (brush s)\<lparr>down := True, pointers := pointers (brush s) @ [(qx, qy)]\<rparr>
               \<and> trace s2 = trace s))
       \<and> (coords opts \<noteq> None \<and> cloneStartCoords s = None \<longrightarrow>
            fst (handlePress px py ty s) = None
          \<and> cloneStartCoords (snd (handlePress px py ty s)) = Some (px, py)
          \<and> toolOptions (snd (handlePress px py ty s)) = Some opts
          \<and> brush (snd (handlePress px py ty s))
              = (brush s)\<lparr>down := True, pointers := pointers (brush s) @ [(px, py)]\<rparr>
          \<and> trace (snd (handlePress px py ty s)) = trace s)"
  using assms
  by (simp add: handlePress_def storeBrushPointer_def Let_def)

theorem clone_press_anchors_witness:
  "isPaintMode exClone \<and> toolType exClone = Some CLONE \<and> toolOptions exClone = Some exOptions
   \<and> coords exOptions = None
   \<and> toolOptions (snd (handlePress 0 0 ''mousedown'' exClone))
       = Some (exOptions\<lparr>coords := Some (0, 0)\<rparr>)
   \<and> \<not> down (brush (snd (handlePress 0 0 ''mousedown'' exClone)))
   \<and> pointers (brush (snd (handlePress 0 0 ''mousedown'' exClone))) = []
   \<and> cloneStartCoords
        (snd (handlePress 50 50 ''mousedown'' (snd (handlePress 0 0 ''mousedown'' exClone))))
       = Some (50, 50)
   \<and> down (brush
        (snd (handlePress 50 50 ''mousedown'' (snd (handlePress 0 0 ''mousedown'' exClone)))))
   \<and> pointers (brush
        (snd (handlePress 50 50 ''mousedown'' (snd (handlePress 0 0 ''mousedown'' exClone)))))
       = [(50, 50)]"
proof -
  have f: "isPaintMode exClone" "\<not> isColorPicker exClone" "toolType exClone = Some CLONE"
    "toolOptions exClone = Some exOptions" "\<not> down (brush exClone)"
    "pointers (brush exClone) = []"
    by (simp_all add: exClone_def ex_defs sprite_defs)
  have c: "coords exOptions = None" by (simp add: exOptions_def)
  show ?thesis
    using clone_press_anchors [OF f(1-4), of 0 0 "''mousedown''" 50 50]
    by (simp add: f c Let_def)
qed


subsection \<open>Saves and restores in the low-resolution preview (C9)\<close>

lemma saveStack_filter: "saveStack (filter isSaveRestore es) st = saveStack es st"
  by (induction es st rule: saveStack.induct) (simp_all split: list.splits)

lemma sr_emit: "sr (emit e s) = sr s @ (if isSaveRestore e then [e] else [])"
  by (simp add: sr_def emit_def)

lemma sr_resetFilterAndRecache: "sr (resetFilterAndRecache s) = sr s"
  by (simp add: sr_def resetFilterAndRecache_def cacheEffects_def emit_def)

lemma sr_prepare: "sr (preparePendingPaintState s) = sr s"
  by (simp add: sr_def preparePendingPaintState_eq)

lemma sr_paint_clip:
  "sr (snd (paint_clip c w h lr a s))
     = sr s @ (if fst (paint_clip c w h lr a s) \<noteq> None then [CtxSave c] else [])"
  by (simp add: paint_clip_def Let_def sr_emit split: option.splits)

lemma sr_paint_action: "sr (paint_action c a s) = sr s"
  by (simp add: paint_action_def sr_emit)

lemma sr_paint_fill: "sr (snd (paint_fill c w h s)) = sr s"
  by (simp add: paint_fill_def Let_def sr_emit split: option.splits)

lemma sr_paint_brush:
  "cl \<or> \<not> lr \<Longrightarrow>
     sr (snd (snd (paint_brush c w h lr er cl sel s))) = sr s
     \<and> fst (snd (paint_brush c w h lr er cl sel s)) = c"
  unfolding paint_brush_def Let_def
  by (cases cl; cases lr; cases "toolOptions s"; cases er)
     (simp_all add: sr_def emit_def)

lemma sr_paint_dispatch:
  "a \<noteq> None \<or> toolType s = Some FILL \<or> toolType s = Some CLONE \<or> \<not> lr \<Longrightarrow>
     sr (snd (snd (paint_dispatch c w h lr a sel s))) = sr s
     \<and> fst (snd (paint_dispatch c w h lr a sel s)) = c"
  using sr_paint_brush [of "toolType s = Some CLONE" lr c w h "toolType s = Some ERASER" sel s]
  by (auto simp: paint_dispatch_def sr_paint_action sr_paint_fill split: option.splits)

lemma sr_paint_restore:
  "sr (paint_restore lr sel c s) = sr s @ (if sel \<noteq> None then [CtxRestore c] else []) @ [CtxRestore c]"
  by (simp add: paint_restore_def Let_def sr_emit sr_resetFilterAndRecache)

lemma sr_paint_body:
  assumes "fst (paint_body a s) = None"
    and "a \<noteq> None \<or> toolType s = Some FILL \<or> toolType s = Some CLONE \<or> \<not> isLowResPreview s"
  shows "\<exists>b. sr (snd (paint_body a s))
           = sr s @ [CtxSave (drawingContext s)]
               @ (if b then [CtxSave (drawingContext s), CtxRestore (drawingContext s)] else [])
               @ [CtxRestore (drawingContext s)]"
proof -
  define ctx where "ctx = drawingContext s"
  define width where "width = cvs_width (drawingCanvas s)"
  define height where "height = cvs_height (drawingCanvas s)"
  define s1 where "s1 = emit (CtxSave ctx) (emit (GetContext ctx) s)"
  define lowRes where "lowRes = isLowResPreview s1"
  define clip where "clip = paint_clip ctx width height lowRes a s1"
  define r where "r = paint_dispatch ctx width height lowRes a (fst clip) (snd clip)"
  have lr: "lowRes = isLowResPreview s"
    by (simp add: lowRes_def isLowResPreview_def isMaskable_def s1_def emit_def)
  have e1: "sr s1 = sr s @ [CtxSave ctx]" by (simp add: s1_def sr_emit)
  have e2: "sr (snd clip) = sr s @ [CtxSave ctx] @ (if fst clip \<noteq> None then [CtxSave ctx] else [])"
    unfolding clip_def sr_paint_clip e1 by simp
  have tt: "toolType (snd clip) = toolType s"
    by (simp add: clip_def paint_clip_same s1_def emit_def)
  have e3: "sr (snd (snd r)) = sr (snd clip) \<and> fst (snd r) = ctx"
    unfolding r_def using assms(2) by (intro sr_paint_dispatch) (simp add: tt lr)
  have fr: "fst (paint_body a s) = fst r"
    unfolding paint_body_def Let_def r_def clip_def lowRes_def s1_def height_def width_def ctx_def
    by (simp split: option.splits)
  have res: "snd (paint_body a s) = paint_restore lowRes (fst clip) (fst (snd r)) (snd (snd r))"
    using assms(1) fr
    unfolding paint_body_start Let_def r_def clip_def lowRes_def s1_def height_def width_def ctx_def
    by simp
  have "sr (snd (paint_body a s))
           = sr s @ [CtxSave ctx] @ (if fst clip \<noteq> None then [CtxSave ctx, CtxRestore ctx] else [])
               @ [CtxRestore ctx]"
    unfolding res sr_paint_restore using e2 e3 by simp
  then show ?thesis unfolding ctx_def by blast
qed

text \<open>
  Outside the low-resolution preview of a brush or an eraser (an action of the caller, the
  fill tool, the clone tool, or a full-resolution pass), a paint that returns restores
  what it saved, on the same context and in reverse order.
\<close>

lemma paint_balanced_outside_preview:
  assumes "fst (paint a s) = None"
    and "a \<noteq> None \<or> toolType s = Some FILL \<or> toolType s = Some CLONE \<or> \<not> isLowResPreview s"
  shows "saveStack (newEvents s (snd (paint a s))) [] = Some []"
proof -
  define s0 where "s0 = (if absent (pendingPaintState s) then preparePendingPaintState s else s)"
  have p: "paint a s = paint_body a s0" by (simp add: paint_def s0_def)
  have s0f: "toolType s0 = toolType s" "isLowResPreview s0 = isLowResPreview s" "sr s0 = sr s"
    by (simp_all add: s0_def prepare_same sr_prepare isLowResPreview_def isMaskable_def)
  have "fst (paint_body a s0) = None" using assms(1) p by simp
  moreover have "a \<noteq> None \<or> toolType s0 = Some FILL \<or> toolType s0 = Some CLONE
                 \<or> \<not> isLowResPreview s0"
    using assms(2) by (simp add: s0f)
  ultimately obtain b where b: "sr (snd (paint_body a s0))
           = sr s0 @ [CtxSave (drawingContext s0)]
               @ (if b then [CtxSave (drawingContext s0), CtxRestore (drawingContext s0)] else [])
               @ [CtxRestore (drawingContext s0)]"
    using sr_paint_body by blast
  have "prefix (trace s) (trace (snd (paint a s)))" by (rule paint_frame(4))
  then obtain evs where evs: "trace (snd (paint a s)) = trace s @ evs" by (auto simp: prefix_def)
  then have n: "newEvents s (snd (paint a s)) = evs" by (simp add: newEvents_def)
  have "sr (snd (paint a s)) = sr s @ filter isSaveRestore evs" by (simp add: sr_def evs)
  then have f: "filter isSaveRestore evs
           = [CtxSave (drawingContext s0)]
               @ (if b then [CtxSave (drawingContext s0), CtxRestore (drawingContext s0)] else [])
               @ [CtxRestore (drawingContext s0)]"
    using b by (simp add: p s0f)
  have "saveStack (filter isSaveRestore evs) [] = Some []" unfolding f by simp
  then show ?thesis by (simp add: n saveStack_filter)
qed


lemma sr_paint_brush_preview:
  "\<not> cl \<Longrightarrow> lr \<Longrightarrow>
     sr (snd (snd (paint_brush c w h lr er cl sel s)))
       = sr s @ (if sel \<noteq> None then [CtxSave TempCtx, CtxRestore c] else [])
     \<and> fst (snd (paint_brush c w h lr er cl sel s)) = TempCtx
     \<and> fst (paint_brush c w h lr er cl sel s) = None"
  unfolding paint_brush_def Let_def
  by (cases sel; cases "tempCanvas s") (simp_all add: sr_def emit_def)

lemma sr_paint_body_preview:
  assumes "isLowResPreview s" and "toolType s \<noteq> Some FILL" and "toolType s \<noteq> Some CLONE"
  shows "\<exists>b. sr (snd (paint_body None s))
           = sr s @ [CtxSave (drawingContext s)]
               @ (if b then [CtxSave (drawingContext s), CtxSave TempCtx,
                             CtxRestore (drawingContext s), CtxRestore TempCtx]
                  else [])
               @ [CtxRestore TempCtx]"
proof -
  define ctx where "ctx = drawingContext s"
  define width where "width = cvs_width (drawingCanvas s)"
  define height where "height = cvs_height (drawingCanvas s)"
  define s1 where "s1 = emit (CtxSave ctx) (emit (GetContext ctx) s)"
  define lowRes where "lowRes = isLowResPreview s1"
  define clip where "clip = paint_clip ctx width height lowRes None s1"
  define r where "r = paint_dispatch ctx width height lowRes None (fst clip) (snd clip)"
  have lr: "lowRes"
    using assms(1) by (simp add: lowRes_def isLowResPreview_def isMaskable_def s1_def emit_def)
  have e1: "sr s1 = sr s @ [CtxSave ctx]" by (simp add: s1_def sr_emit)
  have e2: "sr (snd clip) = sr s @ [CtxSave ctx] @ (if fst clip \<noteq> None then [CtxSave ctx] else [])"
    unfolding clip_def sr_paint_clip e1 by simp
  have tt: "toolType (snd clip) = toolType s"
    by (simp add: clip_def paint_clip_same s1_def emit_def)
  have rb: "r = paint_brush ctx width height lowRes (toolType s = Some ERASER) False
                  (fst clip) (snd clip)"
    using assms(2,3) by (simp add: r_def paint_dispatch_def tt)
  have e3: "sr (snd (snd r))
              = sr (snd clip) @ (if fst clip \<noteq> None then [CtxSave TempCtx, CtxRestore ctx] else [])
            \<and> fst (snd r) = TempCtx \<and> fst r = None"
    unfolding rb using lr by (intro sr_paint_brush_preview) simp_all
  have res: "snd (paint_body None s) = paint_restore lowRes (fst clip) (fst (snd r)) (snd (snd r))"
    using e3
    unfolding paint_body_start Let_def r_def clip_def lowRes_def s1_def height_def width_def ctx_def
    by simp
  have "sr (snd (paint_body None s))
           = sr s @ [CtxSave ctx]
               @ (if fst clip \<noteq> None
                  then [CtxSave ctx, CtxSave TempCtx, CtxRestore ctx, CtxRestore TempCtx] else [])
               @ [CtxRestore TempCtx]"
    unfolding res sr_paint_restore using e2 e3 by simp
  then show ?thesis unfolding ctx_def by blast
qed

lemma drawingContext_not_temp: "drawingContext s \<noteq> TempCtx"
  by (simp add: drawingContext_def)

text \<open>
  In the low-resolution preview of a brush or an eraser, a restore of every paint falls on
  a context other than the one saved last.
\<close>

lemma paint_preview_unbalanced:
  assumes "isLowResPreview s" and "toolType s \<noteq> Some FILL" and "toolType s \<noteq> Some CLONE"
  shows "saveStack (newEvents s (snd (paint None s))) [] = None"
proof -
  define s0 where "s0 = (if absent (pendingPaintState s) then preparePendingPaintState s else s)"
  have p: "paint None s = paint_body None s0" by (simp add: paint_def s0_def)
  have s0f: "toolType s0 = toolType s" "isLowResPreview s0 = isLowResPreview s" "sr s0 = sr s"
    by (simp_all add: s0_def prepare_same sr_prepare isLowResPreview_def isMaskable_def)
  have "isLowResPreview s0" "toolType s0 \<noteq> Some FILL" "toolType s0 \<noteq> Some CLONE"
    using assms by (simp_all add: s0f)
  from sr_paint_body_preview [OF this] obtain b where b: "sr (snd (paint_body None s0))
           = sr s0 @ [CtxSave (drawingContext s0)]
               @ (if b then [CtxSave (drawingContext s0), CtxSave TempCtx,
                             CtxRestore (drawingContext s0), CtxRestore TempCtx]
                  else [])
               @ [CtxRestore TempCtx]"
    by blast
  have "prefix (trace s) (trace (snd (paint None s)))" by (rule paint_frame(4))
  then obtain evs where evs: "trace (snd (paint None s)) = trace s @ evs"
    by (auto simp: prefix_def)
  then have n: "newEvents s (snd (paint None s)) = evs" by (simp add: newEvents_def)
  have "sr (snd (paint None s)) = sr s @ filter isSaveRestore evs" by (simp add: sr_def evs)
  then have f: "filter isSaveRestore evs
           = [CtxSave (drawingContext s0)]
               @ (if b then [CtxSave (drawingContext s0), CtxSave TempCtx,
                             CtxRestore (drawingContext s0), CtxRestore TempCtx]
                  else [])
               @ [CtxRestore TempCtx]"
    using b by (simp add: p s0f)
  have "saveStack (filter isSaveRestore evs) [] = None"
    unfolding f using drawingContext_not_temp [of s0] by (cases b) auto
  then show ?thesis by (simp add: n saveStack_filter)
qed


text \<open>
  Claim C9 at a failing input. A brush stroke that has just been pressed is painted as a
  low-resolution preview. Without a selection the paint saves the context of the layer
  source and restores the context of the low-resolution canvas: the save stays open.
  With a closed selection it saves the source context twice and the low-resolution
  context once, then restores the source context once and the low-resolution context
  twice. In both cases a restore falls on a context other than the one saved last.
\<close>

theorem paint_preview_leaves_save_open:
  "down (brush exPressed) \<and> selection exPressed = None
   \<and> fst (paint None exPressed) = None
   \<and> filter isSaveRestore (trace exPressed) = []
   \<and> filter isSaveRestore (trace (snd (paint None exPressed)))
       = [CtxSave LayerSource, CtxRestore TempCtx]
   \<and> saveStack (trace (snd (paint None exPressed))) [] = None
   \<and> down (brush exPressedSelected)
   \<and> selection exPressedSelected = Some [(0, 0), (50, 0), (50, 50), (0, 0)]
   \<and> filter isSaveRestore (trace (snd (paint None exPressedSelected)))
       = [CtxSave LayerSource, CtxSave LayerSource, CtxSave TempCtx,
          CtxRestore LayerSource, CtxRestore TempCtx, CtxRestore TempCtx]
   \<and> saveStack (trace (snd (paint None exPressedSelected))) [] = None"
  by (simp add: exPressed_def exPressedSelected_def exSelection_def ex_defs sprite_defs)


end
